theory Spec2Isabelle
  imports Complex_Main "HOL-Library.Sublist"
begin

section \<open>Douyu live-status monitor: a shallow embedding of main.py\<close>

text \<open>
  The development follows \<^verbatim>\<open>src/Desktop/1/dy/1/main.py\<close>, class \<^verbatim>\<open>DouyuMonitor\<close>.
  Python values that come from the network or from JSON files are modelled by the datatype
  \<open>json\<close>; every call that leaves the process (HTTP, desktop notification, file write,
  browser, console input) takes its outcome from an environment record and leaves an event
  in a trace; every \<^verbatim>\<open>raise\<close> is the \<open>Inl\<close> branch of a sum.
\<close>

subsection \<open>Strings\<close>

text \<open>
  A Python \<^verbatim>\<open>str\<close> is a sequence of Unicode code points, so it is a list of naturals here.
  ASCII literals are written \<open>u ''...''\<close>; the Chinese texts of the source are given by their
  code points.
\<close>

type_synonym ustr = "nat list"

definition u :: "string \<Rightarrow> ustr" where
  "u s = map of_char s"

text \<open>U+672A U+77E5 U+623F U+95F4, the source's literal for an unknown room.\<close>
definition unknown_room :: ustr where
  "unknown_room = [0x672A, 0x77E5, 0x623F, 0x95F4]"

text \<open>U+672A U+77E5 U+4E3B U+64AD, the source's literal for an unknown streamer.\<close>
definition unknown_owner :: ustr where
  "unknown_owner = [0x672A, 0x77E5, 0x4E3B, 0x64AD]"

text \<open>The f-strings \<^verbatim>\<open>f'<unknown room>_{room_id}'\<close> and \<^verbatim>\<open>f'<unknown streamer>_{room_id}'\<close>.\<close>
definition unknown_room_of :: "ustr \<Rightarrow> ustr" where
  "unknown_room_of room_id = unknown_room @ u ''_'' @ room_id"

definition unknown_owner_of :: "ustr \<Rightarrow> ustr" where
  "unknown_owner_of room_id = unknown_owner @ u ''_'' @ room_id"

text \<open>U+6597 U+9C7C, the platform's name, removed from the page title.\<close>
definition douyu_word :: ustr where
  "douyu_word = [0x6597, 0x9C7C]"

text \<open>The two "room not found" markers: U+623F U+95F4 U+672A U+627E U+5230 and
  U+9875 U+9762 U+627E U+4E0D U+5230.\<close>
definition room_not_found :: ustr where
  "room_not_found = [0x623F, 0x95F4, 0x672A, 0x627E, 0x5230]"

definition page_not_found :: ustr where
  "page_not_found = [0x9875, 0x9762, 0x627E, 0x4E0D, 0x5230]"

text \<open>\<^verbatim>\<open>x in s\<close> on strings.\<close>
fun contains :: "ustr \<Rightarrow> ustr \<Rightarrow> bool" where
  "contains pat [] = (pat = [])"
| "contains pat (c # cs) = (prefix pat (c # cs) \<or> contains pat cs)"

text \<open>The characters for which \<^verbatim>\<open>str.isspace\<close> holds; \<^verbatim>\<open>\s\<close> of the \<^verbatim>\<open>re\<close> module and
  \<^verbatim>\<open>str.strip()\<close> use the same set.\<close>
definition is_space :: "nat \<Rightarrow> bool" where
  "is_space c \<longleftrightarrow>
     (9 \<le> c \<and> c \<le> 13) \<or> (28 \<le> c \<and> c \<le> 32) \<or> c = 133 \<or> c = 160 \<or> c = 5760 \<or>
     (8192 \<le> c \<and> c \<le> 8202) \<or> c = 8232 \<or> c = 8233 \<or> c = 8239 \<or> c = 8287 \<or> c = 12288"

definition strip :: "ustr \<Rightarrow> ustr" where
  "strip s = rev (dropWhile is_space (rev (dropWhile is_space s)))"

text \<open>\<^verbatim>\<open>s.split(d)\<close> for a one-character delimiter: never an empty list.\<close>
fun split_on :: "nat \<Rightarrow> ustr \<Rightarrow> ustr list" where
  "split_on d [] = [[]]"
| "split_on d (c # cs) =
     (if c = d then [] # split_on d cs
      else (case split_on d cs of [] \<Rightarrow> [[c]] | p # ps \<Rightarrow> (c # p) # ps))"

text \<open>\<^verbatim>\<open>s.replace(old, new)\<close> for a non-empty \<open>old\<close>: occurrences are replaced from left to
  right, without overlap.\<close>
function replace_str :: "ustr \<Rightarrow> ustr \<Rightarrow> ustr \<Rightarrow> ustr" where
  "replace_str old new [] = []"
| "replace_str old new (c # cs) =
     (if old \<noteq> [] \<and> prefix old (c # cs)
      then new @ replace_str old new (drop (length old) (c # cs))
      else c # replace_str old new cs)"
  by pat_completeness auto
termination
  by (relation "measure (\<lambda>(old, new, s). length s)") (auto simp: Suc_le_eq)

subsection \<open>The fragment of regular expressions the scraper uses\<close>

text \<open>
  The patterns of \<^verbatim>\<open>get_room_info_backup\<close> are built from literals, one character of a
  class, greedy and lazy repetition of a class, an optional part, sequence and one capture
  group. \<open>rmatch r s\<close> lists, in the order a backtracking matcher tries them, what is left
  of \<open>s\<close> after a match of \<open>r\<close> at its start, with the text of the group.
\<close>

datatype re =
    Lit ustr
  | Cls "nat \<Rightarrow> bool"
  | Star "nat \<Rightarrow> bool"
  | Plus "nat \<Rightarrow> bool"
  | Lazy "nat \<Rightarrow> bool"
  | Opt re
  | Seq re re
  | Group re

fun rmatch :: "re \<Rightarrow> ustr \<Rightarrow> (ustr \<times> ustr option) list" where
  "rmatch (Lit l) s = (if prefix l s then [(drop (length l) s, None)] else [])"
| "rmatch (Cls c) s = (case s of [] \<Rightarrow> [] | x # xs \<Rightarrow> if c x then [(xs, None)] else [])"
| "rmatch (Star c) s =
     map (\<lambda>k. (drop k s, None)) (rev [0..<Suc (length (takeWhile c s))])"
| "rmatch (Plus c) s =
     map (\<lambda>k. (drop k s, None)) (rev [1..<Suc (length (takeWhile c s))])"
| "rmatch (Lazy c) s =
     map (\<lambda>k. (drop k s, None)) [0..<Suc (length (takeWhile c s))]"
| "rmatch (Opt r) s = rmatch r s @ [(s, None)]"
| "rmatch (Seq a b) s =
     concat (map (\<lambda>(s1, g1).
        map (\<lambda>(s2, g2). (s2, case g2 of None \<Rightarrow> g1 | Some g \<Rightarrow> Some g)) (rmatch b s1))
        (rmatch a s))"
| "rmatch (Group r) s =
     map (\<lambda>(s1, g). (s1, Some (take (length s - length s1) s))) (rmatch r s)"

text \<open>\<^verbatim>\<open>re.search\<close>: the first match at the leftmost position that has one. The result is
  the text of group 1 (\<open>None\<close> inside when the pattern has no group).\<close>
fun re_search :: "re \<Rightarrow> ustr \<Rightarrow> ustr option option" where
  "re_search r [] = (case rmatch r [] of [] \<Rightarrow> None | (rest, g) # ms \<Rightarrow> Some g)"
| "re_search r (c # cs) =
     (case rmatch r (c # cs) of [] \<Rightarrow> re_search r cs | (rest, g) # ms \<Rightarrow> Some g)"

definition re_found :: "re \<Rightarrow> ustr \<Rightarrow> bool" where
  "re_found r s \<longleftrightarrow> re_search r s \<noteq> None"

text \<open>\<^verbatim>\<open>m = re.search(p, s)\<close> followed by \<^verbatim>\<open>m.group(1)\<close>, for a pattern with a group.\<close>
definition re_group1 :: "re \<Rightarrow> ustr \<Rightarrow> ustr option" where
  "re_group1 r s = (case re_search r s of Some (Some g) \<Rightarrow> Some g | _ \<Rightarrow> None)"

definition seqs :: "re list \<Rightarrow> re" where
  "seqs rs = foldr Seq rs (Lit [])"

definition quote :: nat where
  "quote = 34"

text \<open>\<^verbatim>\<open>"KEY":\s*\<close>, the common head of the patterns.\<close>
definition field_head :: "string \<Rightarrow> re" where
  "field_head key = Seq (Lit ([quote] @ u key @ [quote] @ u '':'')) (Star is_space)"

text \<open>\<^verbatim>\<open>"KEY":\s*"([^"]+)"\<close>\<close>
definition field_pattern :: "string \<Rightarrow> re" where
  "field_pattern key =
     seqs [field_head key, Lit [quote], Group (Plus (\<lambda>c. c \<noteq> quote)), Lit [quote]]"

text \<open>The list \<^verbatim>\<open>is_live_patterns\<close>:
  \<^verbatim>\<open>"isLive":\s*([1-9])\<close>, \<^verbatim>\<open>"isLive":\s*true\<close>, \<^verbatim>\<open>"show_status":\s*"?1"?\<close>,
  \<^verbatim>\<open>"videoLoop":\s*0\<close>.\<close>
definition is_live_patterns :: "re list" where
  "is_live_patterns =
    [Seq (field_head ''isLive'') (Group (Cls (\<lambda>c. 49 \<le> c \<and> c \<le> 57))),
     Seq (field_head ''isLive'') (Lit (u ''true'')),
     seqs [field_head ''show_status'', Opt (Lit [quote]), Lit (u ''1''), Opt (Lit [quote])],
     Seq (field_head ''videoLoop'') (Lit (u ''0''))]"

definition nickname_pattern :: re where
  "nickname_pattern = field_pattern ''nickname''"

definition room_name_pattern :: re where
  "room_name_pattern = field_pattern ''roomName''"

definition alt_room_name_pattern :: re where
  "alt_room_name_pattern = field_pattern ''room_name''"

text \<open>\<^verbatim>\<open><title>(.*?)</title>\<close>; the dot does not match a line feed.\<close>
definition title_pattern :: re where
  "title_pattern =
     seqs [Lit (u ''<title>''), Group (Lazy (\<lambda>c. c \<noteq> 10)), Lit (u ''</title>'')]"

subsection \<open>JSON values and Python's operations on them\<close>

datatype json =
    JNull
  | JBool bool
  | JInt int
  | JFloat rat
  | JStr ustr
  | JArr "json list"
  | JObj "(ustr \<times> json) list"

text \<open>The exceptions of class \<^verbatim>\<open>Exception\<close> that the modelled calls raise. An interrupt
  from the keyboard is not one of them and is not modelled.\<close>
datatype exn =
    AttributeError
  | KeyError
  | ValueError
  | EOFError
  | RequestException
  | JSONDecodeError
  | OSError
  | RuntimeError

text \<open>Truth value of a JSON value in a condition.\<close>
fun py_truthy :: "json \<Rightarrow> bool" where
  "py_truthy JNull = False"
| "py_truthy (JBool b) = b"
| "py_truthy (JInt i) = (i \<noteq> 0)"
| "py_truthy (JFloat r) = (r \<noteq> 0)"
| "py_truthy (JStr s) = (s \<noteq> [])"
| "py_truthy (JArr xs) = (xs \<noteq> [])"
| "py_truthy (JObj kvs) = (kvs \<noteq> [])"

text \<open>\<^verbatim>\<open>v == n\<close> for an integer literal \<open>n\<close>: numbers compare by value, and \<^verbatim>\<open>False\<close>,
  \<^verbatim>\<open>True\<close> are the integers 0 and 1.\<close>
fun py_eq_int :: "json \<Rightarrow> int \<Rightarrow> bool" where
  "py_eq_int (JInt i) n = (i = n)"
| "py_eq_int (JFloat r) n = (r = of_int n)"
| "py_eq_int (JBool b) n = ((if b then 1 else 0) = n)"
| "py_eq_int _ n = False"

text \<open>\<^verbatim>\<open>d.get(k, default)\<close>; only a dict has the method.\<close>
fun dict_get :: "json \<Rightarrow> ustr \<Rightarrow> json \<Rightarrow> exn + json" where
  "dict_get (JObj kvs) k d = Inr (case map_of kvs k of None \<Rightarrow> d | Some v \<Rightarrow> v)"
| "dict_get _ k d = Inl AttributeError"

subsection \<open>The outside world: responses, environment, trace\<close>

text \<open>What the code reads of a \<^verbatim>\<open>requests\<close> response: the final URL after redirects, the
  status code, the body, and what \<^verbatim>\<open>response.json()\<close> gives (a value or an exception).\<close>
record response =
  resp_url :: ustr
  status_code :: int
  text_body :: ustr
  json_result :: "exn + json"

text \<open>
  The environment of the processing of one room in one poll: each outside call is made at
  most once there, so its outcome is a function of the call's arguments.
  \<open>py_str\<close> is Python's \<^verbatim>\<open>str()\<close> on a value that is not a string, as an f-string
  applies it; \<open>strftime_now\<close> is \<^verbatim>\<open>datetime.now().strftime('%Y-%m-%d %H:%M:%S')\<close>.
\<close>
record env =
  requests_get :: "ustr \<Rightarrow> exn + response"
  requests_post :: "ustr \<Rightarrow> (ustr \<times> ustr) list \<Rightarrow> exn + response"
  notification_notify :: "ustr \<Rightarrow> ustr \<Rightarrow> exn option"
  json_dump :: "exn option"
  strftime_now :: ustr
  py_str :: "json \<Rightarrow> ustr"

datatype level = DEBUG | INFO | WARNING | ERROR

text \<open>The log lines of the source, one constructor per \<^verbatim>\<open>logging\<close> call, with the values
  the line is formatted from.\<close>
datatype logmsg =
    GetInfoFailed ustr exn
  | Redirected ustr ustr
  | RedirectedToTopic ustr
  | RoomMayNotExist ustr
  | ParseResult ustr bool ustr ustr
  | PageRequestFailed int
  | PcApiFailed ustr exn
  | SaveNamesFailed exn
  | NotifySent ustr ustr
  | NotifyFailed exn
  | PushOk ustr
  | PushRejected json
  | PushStatus int
  | PushError exn
  | Opened ustr
  | OpenFailed exn
  | ChoiceError exn
  | WentLive json ustr
  | WentOffline json ustr
  | StatusLine json ustr bool
  | CheckFailed ustr exn
  | Started "ustr list"
  | MonitorFailed exn

datatype printed =
    MenuHeader
  | MenuLine nat json json
  | MenuNone
  | InvalidChoice
  | NeedNumber

text \<open>The calls that leave the process, in the order they are made. \<open>HttpGet\<close> and
  \<open>HttpPost\<close> carry the \<^verbatim>\<open>timeout=\<close> argument of the call, \<open>None\<close> when the call passes
  none.\<close>
datatype event =
    HttpGet ustr "nat option"
  | HttpPost ustr "(ustr \<times> ustr) list" "nat option"
  | DesktopNotify ustr ustr
  | WriteNames
  | BrowserOpen ustr
  | ReadChoice
  | Print printed
  | Log level logmsg
  | SpawnHandler
  | Sleep nat

text \<open>A computation leaves a trace and ends with a value or an exception.\<close>
type_synonym 'a io = "event list \<times> (exn + 'a)"

definition ret :: "'a \<Rightarrow> 'a io" where
  "ret x = ([], Inr x)"

definition emit :: "event \<Rightarrow> unit io" where
  "emit ev = ([ev], Inr ())"

definition lift :: "exn + 'a \<Rightarrow> 'a io" where
  "lift r = ([], r)"

definition bind :: "'a io \<Rightarrow> ('a \<Rightarrow> 'b io) \<Rightarrow> 'b io" where
  "bind m f =
     (case m of
        (es, Inl e) \<Rightarrow> (es, Inl e)
      | (es, Inr x) \<Rightarrow> (case f x of (es', r) \<Rightarrow> (es @ es', r)))"

text \<open>\<^verbatim>\<open>try: body  except Exception as e: handler\<close>.\<close>
definition try_except :: "'a io \<Rightarrow> (exn \<Rightarrow> 'a io) \<Rightarrow> 'a io" where
  "try_except body handler =
     (case body of
        (es, Inl e) \<Rightarrow> (case handler e of (es', r) \<Rightarrow> (es @ es', r))
      | (es, Inr x) \<Rightarrow> (es, Inr x))"

definition http_get :: "env \<Rightarrow> ustr \<Rightarrow> nat option \<Rightarrow> response io" where
  "http_get env url timeout = ([HttpGet url timeout], requests_get env url)"

definition http_post :: "env \<Rightarrow> ustr \<Rightarrow> (ustr \<times> ustr) list \<Rightarrow> nat option \<Rightarrow> response io" where
  "http_post env url payload timeout = ([HttpPost url payload timeout], requests_post env url payload)"

subsection \<open>Resolving a room: \<^verbatim>\<open>get_room_info\<close> and its fallbacks\<close>

definition primary_url :: "ustr \<Rightarrow> ustr" where
  "primary_url room_id = u ''https://open.douyu.com/api/RoomApi/room/'' @ room_id"

definition mobile_url :: "ustr \<Rightarrow> ustr" where
  "mobile_url room_id = u ''https://m.douyu.com/'' @ room_id"

definition pc_url :: "ustr \<Rightarrow> ustr" where
  "pc_url room_id = u ''https://www.douyu.com/betard/'' @ room_id"

text \<open>The dict literal that the three fallback paths return.\<close>
definition room_dict :: "ustr \<Rightarrow> json \<Rightarrow> ustr \<Rightarrow> json \<Rightarrow> json" where
  "room_dict room_id room_name room_status owner_name =
     JObj [(u ''room_id'', JStr room_id), (u ''room_name'', room_name),
           (u ''room_status'', JStr room_status), (u ''owner_name'', owner_name)]"

text \<open>\<^verbatim>\<open>self.room_names.get(room_id, default)\<close>\<close>
definition names_get :: "(ustr \<rightharpoonup> json) \<Rightarrow> ustr \<Rightarrow> json \<Rightarrow> json" where
  "names_get names room_id d = (case names room_id of None \<Rightarrow> d | Some v \<Rightarrow> v)"

text \<open>The end of \<^verbatim>\<open>_try_pc_api\<close>: the cached name when it is truthy, a placeholder
  otherwise, and status \<^verbatim>\<open>'2'\<close>.\<close>
definition cache_fallback :: "(ustr \<rightharpoonup> json) \<Rightarrow> ustr \<Rightarrow> json" where
  "cache_fallback names room_id =
     (let cached_name = names_get names room_id JNull
      in room_dict room_id
           (if py_truthy cached_name then cached_name else JStr (unknown_room_of room_id))
           (u ''2'')
           (if py_truthy cached_name then cached_name else JStr (unknown_owner_of room_id)))"

text \<open>The body of the inner \<^verbatim>\<open>try\<close> of \<^verbatim>\<open>_try_pc_api\<close>; \<open>None\<close> when the condition on the
  payload is false and control falls out of the \<^verbatim>\<open>if\<close>.\<close>
definition pc_payload :: "ustr \<Rightarrow> response \<Rightarrow> json option io" where
  "pc_payload room_id response =
     bind (lift (json_result response)) (\<lambda>data.
     bind (lift (dict_get data (u ''room'') JNull)) (\<lambda>room.
     bind (if py_truthy room then lift (dict_get room (u ''room_id'') JNull) else ret room) (\<lambda>cond.
       if py_truthy cond then
         bind (lift (dict_get data (u ''room'') (JObj []))) (\<lambda>room_data.
         bind (lift (dict_get room_data (u ''room_name'') (JStr (unknown_room_of room_id)))) (\<lambda>rn.
         bind (lift (dict_get room_data (u ''show_status'') JNull)) (\<lambda>ss.
         bind (lift (dict_get room_data (u ''owner_name'') (JStr unknown_owner))) (\<lambda>own.
           ret (Some (room_dict room_id rn (if py_eq_int ss 1 then u ''1'' else u ''2'') own))))))
       else ret None)))"

definition try_pc_api :: "env \<Rightarrow> (ustr \<rightharpoonup> json) \<Rightarrow> ustr \<Rightarrow> json io" where
  "try_pc_api env names room_id =
     bind
       (try_except
          (bind (http_get env (pc_url room_id) (Some 10)) (\<lambda>response.
             if status_code response = 200
             then try_except (pc_payload room_id response) (\<lambda>e. ret None)
             else ret None))
          (\<lambda>e. bind (emit (Log ERROR (PcApiFailed room_id e))) (\<lambda>_. ret None)))
       (\<lambda>found. case found of
          Some info \<Rightarrow> ret info
        | None \<Rightarrow> ret (cache_fallback names room_id))"

text \<open>The scraping block of \<^verbatim>\<open>get_room_info_backup\<close> (status code 200): the live flag, the
  room name and the owner name read from the page.\<close>
definition scrape :: "ustr \<Rightarrow> bool \<times> ustr \<times> ustr" where
  "scrape html_content =
     (let is_live = list_ex (\<lambda>pattern. re_found pattern html_content) is_live_patterns;
          owner0 = (case re_group1 nickname_pattern html_content of
                      Some g \<Rightarrow> g | None \<Rightarrow> unknown_owner);
          room0 = (case re_group1 room_name_pattern html_content of
                     Some g \<Rightarrow> g
                   | None \<Rightarrow> (case re_group1 alt_room_name_pattern html_content of
                                Some g \<Rightarrow> g | None \<Rightarrow> unknown_room));
          (room_name, owner_name) =
            (if owner0 = unknown_owner \<or> room0 = unknown_room then
               (case re_group1 title_pattern html_content of
                  None \<Rightarrow> (room0, owner0)
                | Some title_text \<Rightarrow>
                    if contains (u ''-'') title_text then
                      (case split_on 45 title_text of
                         p0 # p1 # ps \<Rightarrow>
                           (if room0 = unknown_room then strip p0 else room0,
                            if owner0 = unknown_owner
                            then strip (replace_str douyu_word [] (strip p1)) else owner0)
                       | _ \<Rightarrow> (room0, owner0))
                    else (room0, owner0))
             else (room0, owner0))
      in (if contains room_not_found html_content \<or> contains page_not_found html_content
          then False else is_live,
          room_name, owner_name))"

definition scrape_page :: "ustr \<Rightarrow> ustr \<Rightarrow> json io" where
  "scrape_page room_id html_content =
     (case scrape html_content of (is_live, room_name, owner_name) \<Rightarrow>
        bind (if contains room_not_found html_content \<or> contains page_not_found html_content
              then emit (Log WARNING (RoomMayNotExist room_id)) else ret ()) (\<lambda>_.
        bind (emit (Log DEBUG (ParseResult room_id is_live room_name owner_name))) (\<lambda>_.
          ret (room_dict room_id (JStr room_name) (if is_live then u ''1'' else u ''2'')
                 (JStr owner_name)))))"

definition get_room_info_backup :: "env \<Rightarrow> (ustr \<rightharpoonup> json) \<Rightarrow> ustr \<Rightarrow> json io" where
  "get_room_info_backup env names room_id =
     (let url = mobile_url room_id in
      try_except
        (bind (http_get env url (Some 10)) (\<lambda>response.
           let final_url = resp_url response in
           bind (if final_url \<noteq> url then emit (Log DEBUG (Redirected room_id final_url))
                 else ret ()) (\<lambda>_.
             if final_url \<noteq> url \<and> contains (u ''topic'') final_url then
               bind (emit (Log WARNING (RedirectedToTopic room_id))) (\<lambda>_.
                 ret (room_dict room_id
                        (names_get names room_id (JStr (unknown_room_of room_id)))
                        (u ''2'')
                        (names_get names room_id (JStr (unknown_owner_of room_id)))))
             else if status_code response = 200 then
               scrape_page room_id (text_body response)
             else
               bind (emit (Log ERROR (PageRequestFailed (status_code response)))) (\<lambda>_.
                 try_pc_api env names room_id))))
        (\<lambda>e. bind (emit (Log ERROR (GetInfoFailed room_id e))) (\<lambda>_.
                try_pc_api env names room_id)))"

definition get_room_info :: "env \<Rightarrow> (ustr \<rightharpoonup> json) \<Rightarrow> ustr \<Rightarrow> json io" where
  "get_room_info env names room_id =
     try_except
       (bind (http_get env (primary_url room_id) None) (\<lambda>response.
        bind (lift (json_result response)) (\<lambda>data.
        bind (lift (dict_get data (u ''error'') JNull)) (\<lambda>err.
          if py_eq_int err 0 then lift (dict_get data (u ''data'') (JObj []))
          else get_room_info_backup env names room_id))))
       (\<lambda>e. bind (emit (Log ERROR (GetInfoFailed room_id e))) (\<lambda>_.
               get_room_info_backup env names room_id))"

subsection \<open>The monitor object\<close>

record monitor =
  room_ids :: "ustr list"
  check_interval :: nat
  room_status :: "ustr \<rightharpoonup> bool"
  auto_open :: bool
  new_live_rooms :: "(ustr \<times> json) list"
  server_chan_key :: "ustr option"
  room_names :: "ustr \<rightharpoonup> json"

text \<open>\<^verbatim>\<open>__init__\<close>: every configured room starts as not live; \<open>names\<close> is what
  \<^verbatim>\<open>load_room_names\<close> returned.\<close>
definition init :: "ustr list \<Rightarrow> nat \<Rightarrow> bool \<Rightarrow> ustr option \<Rightarrow> (ustr \<rightharpoonup> json) \<Rightarrow> monitor" where
  "init ids interval ao key names =
     \<lparr>room_ids = ids, check_interval = interval,
      room_status = map_of (map (\<lambda>room_id. (room_id, False)) ids),
      auto_open = ao, new_live_rooms = [], server_chan_key = key, room_names = names\<rparr>"

text \<open>A method that changes the object: a trace, a value or an exception, and the object
  afterwards. What was assigned before an exception stays assigned.\<close>
type_synonym 'a meth = "monitor \<Rightarrow> 'a io \<times> monitor"

definition sio :: "'a io \<Rightarrow> 'a meth" where
  "sio c m = (c, m)"

definition sget :: "(monitor \<Rightarrow> 'a io) \<Rightarrow> 'a meth" where
  "sget f m = (f m, m)"

definition supd :: "(monitor \<Rightarrow> monitor) \<Rightarrow> unit meth" where
  "supd f m = (([], Inr ()), f m)"

definition sbind :: "'a meth \<Rightarrow> ('a \<Rightarrow> 'b meth) \<Rightarrow> 'b meth" where
  "sbind p f m =
     (case p m of
        ((es, Inl e), m1) \<Rightarrow> ((es, Inl e), m1)
      | ((es, Inr x), m1) \<Rightarrow> (case f x m1 of ((es', r), m2) \<Rightarrow> ((es @ es', r), m2)))"

definition stry :: "'a meth \<Rightarrow> (exn \<Rightarrow> 'a meth) \<Rightarrow> 'a meth" where
  "stry body handler m =
     (case body m of
        ((es, Inl e), m1) \<Rightarrow> (case handler e m1 of ((es', r), m2) \<Rightarrow> ((es @ es', r), m2))
      | ((es, Inr x), m1) \<Rightarrow> ((es, Inr x), m1))"

definition save_room_names :: "env \<Rightarrow> unit io" where
  "save_room_names env =
     try_except ([WriteNames], case json_dump env of None \<Rightarrow> Inr () | Some e \<Rightarrow> Inl e)
       (\<lambda>e. emit (Log ERROR (SaveNamesFailed e)))"

definition check_room_status :: "env \<Rightarrow> ustr \<Rightarrow> (bool \<times> json) meth" where
  "check_room_status env room_id =
     sbind (sget (\<lambda>m. get_room_info env (room_names m) room_id)) (\<lambda>room_info.
     sbind (sio (lift (dict_get room_info (u ''room_status'') JNull))) (\<lambda>status.
     sbind (sio (lift (dict_get room_info (u ''room_name'') JNull))) (\<lambda>name.
     sbind (if py_truthy name then
              sbind (supd (\<lambda>m. m\<lparr>room_names := (room_names m)(room_id \<mapsto> name)\<rparr>)) (\<lambda>_.
                sio (save_room_names env))
            else sio (ret ())) (\<lambda>_.
       sio (ret (status = JStr (u ''1''), room_info))))))"

subsection \<open>Notification\<close>

text \<open>U+1F534 and U+26AA, the markers in front of the two titles, and the bracketed words
  that replace them in the log.\<close>
definition live_mark :: ustr where
  "live_mark = [0x1F534]"

definition offline_mark :: ustr where
  "offline_mark = [0x26AA]"

definition live_word :: ustr where
  "live_word = [0x5B, 0x76F4, 0x64AD, 0x5D]"

definition offline_word :: ustr where
  "offline_word = [0x5B, 0x4E0B, 0x64AD, 0x5D]"

definition send_url :: "ustr \<Rightarrow> ustr" where
  "send_url key = u ''https://sctapi.ftqq.com/'' @ key @ u ''.send''"

definition send_server_chan :: "env \<Rightarrow> ustr \<Rightarrow> ustr \<Rightarrow> ustr \<Rightarrow> unit io" where
  "send_server_chan env key title message =
     try_except
       (bind (http_post env (send_url key)
                [(u ''title'', title), (u ''desp'', replace_str [10] [10, 10] message)]
                (Some 10)) (\<lambda>response.
          if status_code response = 200 then
            bind (lift (json_result response)) (\<lambda>result.
            bind (lift (dict_get result (u ''code'') JNull)) (\<lambda>code.
              if py_eq_int code 0 then emit (Log INFO (PushOk title))
              else bind (lift (dict_get result (u ''message'') JNull)) (\<lambda>msg.
                     emit (Log ERROR (PushRejected msg)))))
          else emit (Log ERROR (PushStatus (status_code response)))))
       (\<lambda>e. emit (Log ERROR (PushError e)))"

definition desktop_notify :: "env \<Rightarrow> ustr \<Rightarrow> ustr \<Rightarrow> unit io" where
  "desktop_notify env title message =
     ([DesktopNotify title message],
      case notification_notify env title message of None \<Rightarrow> Inr () | Some e \<Rightarrow> Inl e)"

text \<open>\<^verbatim>\<open>if self.server_chan_key:\<close> holds for a key that is neither \<^verbatim>\<open>None\<close> nor empty.\<close>
definition notify :: "env \<Rightarrow> monitor \<Rightarrow> ustr \<Rightarrow> ustr \<Rightarrow> unit io" where
  "notify env m title message =
     try_except
       (bind (desktop_notify env title message) (\<lambda>_.
        bind (emit (Log INFO (NotifySent
                (replace_str offline_mark offline_word (replace_str live_mark live_word title))
                message))) (\<lambda>_.
          case server_chan_key m of
            None \<Rightarrow> ret ()
          | Some key \<Rightarrow> if key \<noteq> [] then send_server_chan env key title message else ret ())))
       (\<lambda>e. emit (Log ERROR (NotifyFailed e)))"

subsection \<open>The poll loop\<close>

text \<open>An f-string applies \<^verbatim>\<open>str()\<close>; on a string that is the string itself.\<close>
definition fmt :: "env \<Rightarrow> json \<Rightarrow> ustr" where
  "fmt env v = (case v of JStr s \<Rightarrow> s | _ \<Rightarrow> py_str env v)"

text \<open>The defaults of the two \<^verbatim>\<open>room_info.get\<close> calls of \<^verbatim>\<open>run\<close>: U+623F U+95F4 and
  U+4E3B U+64AD followed by the room id.\<close>
definition room_label :: "ustr \<Rightarrow> ustr" where
  "room_label room_id = [0x623F, 0x95F4] @ room_id"

definition owner_label :: "ustr \<Rightarrow> ustr" where
  "owner_label room_id = [0x4E3B, 0x64AD] @ room_id"

text \<open>The title of the started-streaming notification: the mark, the owner, then
  U+5F00 U+64AD U+5566 and an exclamation mark.\<close>
definition live_title :: "env \<Rightarrow> json \<Rightarrow> ustr" where
  "live_title env owner_name =
     live_mark @ u '' '' @ fmt env owner_name @ u '' '' @ [0x5F00, 0x64AD, 0x5566] @ u ''!''"

text \<open>The title of the stopped-streaming notification: the mark, the owner, then
  U+5DF2 U+4E0B U+64AD.\<close>
definition offline_title :: "env \<Rightarrow> json \<Rightarrow> ustr" where
  "offline_title env owner_name =
     offline_mark @ u '' '' @ fmt env owner_name @ u '' '' @ [0x5DF2, 0x4E0B, 0x64AD]"

text \<open>The body of both notifications: the room (U+623F U+95F4) and, on a second line, the
  time (U+65F6 U+95F4).\<close>
definition body_text :: "env \<Rightarrow> json \<Rightarrow> ustr" where
  "body_text env room_name =
     [0x623F, 0x95F4] @ u '': '' @ fmt env room_name @ [10] @ [0x65F6, 0x95F4] @ u '': '' @
     strftime_now env"

text \<open>\<^verbatim>\<open>self.room_status[room_id]\<close>\<close>
definition status_of :: "monitor \<Rightarrow> ustr \<Rightarrow> bool io" where
  "status_of m room_id =
     lift (case room_status m room_id of None \<Rightarrow> Inl KeyError | Some b \<Rightarrow> Inr b)"

text \<open>The body of the \<^verbatim>\<open>try\<close> inside the \<^verbatim>\<open>for\<close> loop of \<^verbatim>\<open>run\<close>.\<close>
definition process_room :: "env \<Rightarrow> ustr \<Rightarrow> unit meth" where
  "process_room env room_id =
     sbind (check_room_status env room_id) (\<lambda>(is_live, room_info).
     sbind (sio (lift (dict_get room_info (u ''room_name'') (JStr (room_label room_id))))) (\<lambda>room_name.
     sbind (sio (lift (dict_get room_info (u ''owner_name'') (JStr (owner_label room_id))))) (\<lambda>owner_name.
     sbind (sget (\<lambda>m. status_of m room_id)) (\<lambda>previous.
       if is_live \<noteq> previous then
         sbind (supd (\<lambda>m. m\<lparr>room_status := (room_status m)(room_id \<mapsto> is_live)\<rparr>)) (\<lambda>_.
           if is_live then
             sbind (sget (\<lambda>m. notify env m (live_title env owner_name) (body_text env room_name))) (\<lambda>_.
             sbind (sio (emit (Log INFO (WentLive owner_name room_id)))) (\<lambda>_.
               supd (\<lambda>m. m\<lparr>new_live_rooms := new_live_rooms m @ [(room_id, room_info)]\<rparr>)))
           else
             sbind (sget (\<lambda>m. notify env m (offline_title env owner_name) (body_text env room_name))) (\<lambda>_.
               sio (emit (Log INFO (WentOffline owner_name room_id)))))
       else sio (emit (Log INFO (StatusLine room_name room_id is_live)))))))"

text \<open>One pass of the \<^verbatim>\<open>for\<close> loop: the body under its \<^verbatim>\<open>except Exception\<close>.\<close>
definition run_room :: "env \<Rightarrow> ustr \<Rightarrow> unit meth" where
  "run_room env room_id =
     stry (process_room env room_id) (\<lambda>e. sio (emit (Log ERROR (CheckFailed room_id e))))"

text \<open>The \<^verbatim>\<open>for\<close> loop over the rooms; \<open>envs i\<close> is the environment of pass number \<open>i\<close>.\<close>
fun for_rooms :: "(nat \<Rightarrow> env) \<Rightarrow> nat \<Rightarrow> ustr list \<Rightarrow> unit meth" where
  "for_rooms envs i [] m = (ret (), m)"
| "for_rooms envs i (room_id # rest) m =
     sbind (run_room (envs i) room_id) (\<lambda>_. for_rooms envs (Suc i) rest) m"

subsection \<open>Choosing among the rooms that went live\<close>

text \<open>The console of the selection handler: whether \<^verbatim>\<open>webbrowser.open\<close> raises, and what
  \<^verbatim>\<open>int(input(...))\<close> gives: a number, \<open>ValueError\<close> for text that is not a number, or
  another exception of the read.\<close>
record console =
  webbrowser_open :: "ustr \<Rightarrow> exn option"
  int_input :: "exn + int"

definition room_url :: "ustr \<Rightarrow> ustr" where
  "room_url room_id = u ''https://www.douyu.com/'' @ room_id"

definition open_live_room :: "console \<Rightarrow> ustr \<Rightarrow> unit io" where
  "open_live_room con room_id =
     (let url = room_url room_id in
      try_except
        (bind ([BrowserOpen url], case webbrowser_open con url of None \<Rightarrow> Inr () | Some e \<Rightarrow> Inl e)
           (\<lambda>_. emit (Log INFO (Opened url))))
        (\<lambda>e. emit (Log ERROR (OpenFailed e))))"

text \<open>The loop that prints the numbered menu, outside any \<^verbatim>\<open>try\<close>.\<close>
fun print_menu :: "nat \<Rightarrow> (ustr \<times> json) list \<Rightarrow> unit io" where
  "print_menu i [] = ret ()"
| "print_menu i ((room_id, room_info) # rest) =
     bind (lift (dict_get room_info (u ''room_name'') (JStr (room_label room_id)))) (\<lambda>room_name.
     bind (lift (dict_get room_info (u ''owner_name'') (JStr (owner_label room_id)))) (\<lambda>owner_name.
     bind (emit (Print (MenuLine i owner_name room_name))) (\<lambda>_.
       print_menu (Suc i) rest)))"

text \<open>The \<^verbatim>\<open>try\<close> around the choice, with its two \<^verbatim>\<open>except\<close> clauses.\<close>
definition take_choice :: "console \<Rightarrow> (ustr \<times> json) list \<Rightarrow> unit io" where
  "take_choice con pending =
     try_except
       (bind ([ReadChoice], int_input con) (\<lambda>choice.
          if 1 \<le> choice \<and> choice \<le> int (length pending)
          then open_live_room con (fst (pending ! nat (choice - 1)))
          else if choice \<noteq> 0 then emit (Print InvalidChoice)
          else ret ()))
       (\<lambda>e. if e = ValueError then emit (Print NeedNumber)
            else emit (Log ERROR (ChoiceError e)))"

definition handle_new_live_rooms :: "console \<Rightarrow> unit meth" where
  "handle_new_live_rooms con m =
     (case new_live_rooms m of
        [] \<Rightarrow> (ret (), m)
      | [(room_id, room_info)] \<Rightarrow>
          sbind (sio (if auto_open m then open_live_room con room_id else ret ())) (\<lambda>_.
            supd (\<lambda>m. m\<lparr>new_live_rooms := []\<rparr>)) m
      | pending \<Rightarrow>
          sbind (sio (emit (Print MenuHeader))) (\<lambda>_.
          sbind (sio (print_menu 1 pending)) (\<lambda>_.
          sbind (sio (emit (Print MenuNone))) (\<lambda>_.
          sbind (sio (take_choice con pending)) (\<lambda>_.
            supd (\<lambda>m. m\<lparr>new_live_rooms := []\<rparr>))))) m)"

subsection \<open>\<^verbatim>\<open>run\<close>\<close>

text \<open>What one turn of \<^verbatim>\<open>while True\<close> meets: the environment of each pass of the
  \<^verbatim>\<open>for\<close> loop, and how far the handler thread started in this turn gets before the next
  turn: \<open>Some con\<close> when it runs to its end on the console \<open>con\<close>, \<open>None\<close> when it is still
  waiting for its input then.\<close>
record cycle =
  room_env :: "nat \<Rightarrow> env"
  handler_console :: "console option"

text \<open>\<^verbatim>\<open>threading.Thread(target=self.handle_new_live_rooms).start()\<close>. The thread is not
  joined, and the handler blocks on \<^verbatim>\<open>input()\<close> when several rooms are pending. When the
  thread is still waiting at the next turn, the object is as the \<^verbatim>\<open>for\<close> loop left it and
  the pending list keeps its entries; what a waiting thread does during later turns is not
  followed. An exception in the thread ends the thread and does not reach the loop.\<close>
definition start_handler :: "console option \<Rightarrow> unit meth" where
  "start_handler progress m =
     (case progress of
        None \<Rightarrow> (([SpawnHandler], Inr ()), m)
      | Some con \<Rightarrow>
          (case handle_new_live_rooms con m of
             ((es, r), m') \<Rightarrow> ((SpawnHandler # es, Inr ()), m')))"

definition poll_cycle :: "cycle \<Rightarrow> unit meth" where
  "poll_cycle w =
     sbind (\<lambda>m. for_rooms (room_env w) 0 (room_ids m) m) (\<lambda>_.
     sbind (\<lambda>m. if new_live_rooms m \<noteq> [] then start_handler (handler_console w) m
                else (ret (), m)) (\<lambda>_.
       sget (\<lambda>m. emit (Sleep (check_interval m)))))"

text \<open>\<^verbatim>\<open>while True\<close> never ends by itself, so the loop is run for a given list of turns. The
  value \<open>Inr ()\<close> after the last turn is a loop that goes on; \<open>Inl e\<close> is an exception that
  left the loop.\<close>
fun run_loop :: "cycle list \<Rightarrow> unit meth" where
  "run_loop [] m = (ret (), m)"
| "run_loop (w # ws) m = sbind (poll_cycle w) (\<lambda>_. run_loop ws) m"

definition run :: "cycle list \<Rightarrow> unit meth" where
  "run ws =
     sbind (sget (\<lambda>m. emit (Log INFO (Started (room_ids m))))) (\<lambda>_.
       stry (run_loop ws) (\<lambda>e. sio (emit (Log ERROR (MonitorFailed e)))))"

section \<open>Notions used in the statements\<close>

subsection \<open>What each source answers\<close>

text \<open>The answer of the primary API: the payload when the response parses as a JSON object
  whose \<open>error\<close> field equals 0, nothing when the request or the parse raises, the value
  is no object, or the marker is missing.\<close>
definition primary_answer :: "env \<Rightarrow> ustr \<Rightarrow> json option" where
  "primary_answer env room_id =
     (case requests_get env (primary_url room_id) of
        Inl e \<Rightarrow> None
      | Inr response \<Rightarrow>
          (case json_result response of
             Inl e \<Rightarrow> None
           | Inr data \<Rightarrow>
               (case data of
                  JObj kvs \<Rightarrow>
                    if py_eq_int (case map_of kvs (u ''error'') of None \<Rightarrow> JNull | Some v \<Rightarrow> v) 0
                    then Some (case map_of kvs (u ''data'') of None \<Rightarrow> JObj [] | Some d \<Rightarrow> d)
                    else None
                | _ \<Rightarrow> None)))"

text \<open>The answer of the mobile page: the offline dict on a redirect to a topic page, the
  scraped dict on status 200, nothing when the request raises or has another status.\<close>
definition mobile_answer :: "env \<Rightarrow> (ustr \<rightharpoonup> json) \<Rightarrow> ustr \<Rightarrow> json option" where
  "mobile_answer env names room_id =
     (case requests_get env (mobile_url room_id) of
        Inl e \<Rightarrow> None
      | Inr response \<Rightarrow>
          if resp_url response \<noteq> mobile_url room_id \<and> contains (u ''topic'') (resp_url response)
          then Some (room_dict room_id (names_get names room_id (JStr (unknown_room_of room_id)))
                       (u ''2'') (names_get names room_id (JStr (unknown_owner_of room_id))))
          else if status_code response = 200
          then (case scrape (text_body response) of (is_live, room_name, owner_name) \<Rightarrow>
                  Some (room_dict room_id (JStr room_name) (if is_live then u ''1'' else u ''2'')
                          (JStr owner_name)))
          else None)"

text \<open>The answer of the PC API: the dict built from a valid payload, nothing otherwise.\<close>
definition pc_answer :: "env \<Rightarrow> ustr \<Rightarrow> json option" where
  "pc_answer env room_id =
     (case requests_get env (pc_url room_id) of
        Inl e \<Rightarrow> None
      | Inr response \<Rightarrow>
          if status_code response = 200
          then (case snd (pc_payload room_id response) of Inr (Some info) \<Rightarrow> Some info | _ \<Rightarrow> None)
          else None)"

text \<open>The first source that answers, in the order primary API, mobile page, PC API, cache.\<close>
definition resolve :: "env \<Rightarrow> (ustr \<rightharpoonup> json) \<Rightarrow> ustr \<Rightarrow> json" where
  "resolve env names room_id =
     (case primary_answer env room_id of
        Some info \<Rightarrow> info
      | None \<Rightarrow>
          (case mobile_answer env names room_id of
             Some info \<Rightarrow> info
           | None \<Rightarrow>
               (case pc_answer env room_id of
                  Some info \<Rightarrow> info
                | None \<Rightarrow> cache_fallback names room_id)))"

text \<open>The log lines of the fallback chain.\<close>
definition resolver_log :: "logmsg \<Rightarrow> bool" where
  "resolver_log msg =
     (case msg of
        GetInfoFailed room_id e \<Rightarrow> True
      | Redirected room_id url \<Rightarrow> True
      | RedirectedToTopic room_id \<Rightarrow> True
      | RoomMayNotExist room_id \<Rightarrow> True
      | ParseResult room_id is_live room_name owner_name \<Rightarrow> True
      | PageRequestFailed code \<Rightarrow> True
      | PcApiFailed room_id e \<Rightarrow> True
      | _ \<Rightarrow> False)"

text \<open>The events a fallback may leave: one of its log lines, or a GET of the mobile page or
  of the PC API with a timeout of ten seconds.\<close>
definition fallback_event :: "ustr \<Rightarrow> event \<Rightarrow> bool" where
  "fallback_event room_id ev =
     (case ev of
        HttpGet url timeout \<Rightarrow> timeout = Some 10 \<and> (url = mobile_url room_id \<or> url = pc_url room_id)
      | Log lv msg \<Rightarrow> resolver_log msg
      | _ \<Rightarrow> False)"

text \<open>A value is a dict whose \<open>room_name\<close> and \<open>owner_name\<close> are present and not empty
  (truthy, as the cache update of \<^verbatim>\<open>check_room_status\<close> tests it).\<close>
definition has_names :: "json \<Rightarrow> bool" where
  "has_names info =
     (case info of
        JObj kvs \<Rightarrow>
          (case map_of kvs (u ''room_name'') of None \<Rightarrow> False | Some v \<Rightarrow> py_truthy v) \<and>
          (case map_of kvs (u ''owner_name'') of None \<Rightarrow> False | Some v \<Rightarrow> py_truthy v)
      | _ \<Rightarrow> False)"

text \<open>\<^verbatim>\<open>info.get(k, d)\<close> for a value known to be a dict.\<close>
definition field :: "json \<Rightarrow> ustr \<Rightarrow> json \<Rightarrow> json" where
  "field info k d =
     (case info of JObj kvs \<Rightarrow> (case map_of kvs k of None \<Rightarrow> d | Some v \<Rightarrow> v) | _ \<Rightarrow> d)"

text \<open>The desktop notifications of a trace, in order: title and body.\<close>
fun notifications :: "event list \<Rightarrow> (ustr \<times> ustr) list" where
  "notifications [] = []"
| "notifications (DesktopNotify title message # es) = (title, message) # notifications es"
| "notifications (ev # es) = notifications es"

text \<open>The rooms whose check was started, read off a trace: the room ids of the GET
  requests to the primary API, in order.\<close>
definition primary_base :: ustr where
  "primary_base = u ''https://open.douyu.com/api/RoomApi/room/''"

fun checked :: "event list \<Rightarrow> ustr list" where
  "checked [] = []"
| "checked (HttpGet url timeout # es) =
     (if prefix primary_base url then drop (length primary_base) url # checked es
      else checked es)"
| "checked (ev # es) = checked es"

text \<open>Every pending entry carries a dict as its room info.\<close>
definition all_dicts :: "(ustr \<times> json) list \<Rightarrow> bool" where
  "all_dicts pending = list_all (\<lambda>(room_id, info). case info of JObj kvs \<Rightarrow> True | _ \<Rightarrow> False) pending"

text \<open>The rooms that a trace records as newly live: the room ids of the log lines written
  in the started-streaming branch of \<^verbatim>\<open>run\<close>, in order.\<close>
fun went_live :: "event list \<Rightarrow> ustr list" where
  "went_live [] = []"
| "went_live (Log lv (WentLive owner_name room_id) # es) = room_id # went_live es"
| "went_live (ev # es) = went_live es"

text \<open>A value is a dict in which \<open>room_name\<close> and \<open>owner_name\<close> are present.\<close>
definition has_name_fields :: "json \<Rightarrow> bool" where
  "has_name_fields info =
     (case info of
        JObj kvs \<Rightarrow> map_of kvs (u ''room_name'') \<noteq> None \<and> map_of kvs (u ''owner_name'') \<noteq> None
      | _ \<Rightarrow> False)"

subsection \<open>Concrete environments\<close>

text \<open>An environment in which only the GET requests matter: the desktop sink works, the
  cache file can be written, the push relay cannot be reached.\<close>
definition plain_env :: "(ustr \<Rightarrow> exn + response) \<Rightarrow> env" where
  "plain_env get =
     \<lparr>requests_get = get, requests_post = (\<lambda>url payload. Inl RequestException),
      notification_notify = (\<lambda>title message. None), json_dump = None,
      strftime_now = u ''2024-05-01 20:00:00'', py_str = (\<lambda>v. u ''?'')\<rparr>"

definition json_response :: "json \<Rightarrow> response" where
  "json_response j = \<lparr>resp_url = [], status_code = 200, text_body = [], json_result = Inr j\<rparr>"

definition live_payload :: json where
  "live_payload = JObj [(u ''room_id'', JStr (u ''63136'')), (u ''room_name'', JStr (u ''Y'')),
                        (u ''room_status'', JStr (u ''1'')), (u ''owner_name'', JStr (u ''X''))]"

text \<open>The primary API answers for room 63136 with the success marker and a live payload.\<close>
definition env_primary_live :: env where
  "env_primary_live =
     plain_env (\<lambda>url. if url = primary_url (u ''63136'')
                       then Inr (json_response (JObj [(u ''error'', JInt 0), (u ''data'', live_payload)]))
                       else Inl RequestException)"

text \<open>The primary API answers for room 63136 with the success marker and no payload.\<close>
definition env_bare_success :: env where
  "env_bare_success =
     plain_env (\<lambda>url. if url = primary_url (u ''63136'')
                       then Inr (json_response (JObj [(u ''error'', JInt 0)]))
                       else Inl RequestException)"

text \<open>Every request raises.\<close>
definition env_down :: env where
  "env_down = plain_env (\<lambda>url. Inl RequestException)"

text \<open>The mobile page of room 63136 redirects to a topic page.\<close>
definition topic_response :: response where
  "topic_response =
     \<lparr>resp_url = u ''https://www.douyu.com/topic/spring'', status_code = 200, text_body = [],
      json_result = Inl JSONDecodeError\<rparr>"

definition env_topic :: env where
  "env_topic =
     plain_env (\<lambda>url. if url = mobile_url (u ''63136'') then Inr topic_response
                       else Inl RequestException)"

text \<open>A name cache that holds a real name for room 63136.\<close>
definition cached_names :: "ustr \<rightharpoonup> json" where
  "cached_names = [u ''63136'' \<mapsto> JStr (u ''Real name'')]"

text \<open>A monitor for the single room 63136, as \<^verbatim>\<open>__init__\<close> leaves it with an empty name
  cache, no relay key and automatic opening switched on.\<close>
definition monitor0 :: monitor where
  "monitor0 = init [u ''63136''] 60 True None Map.empty"

text \<open>The same monitor with room 63136 recorded as live.\<close>
definition monitor_live :: monitor where
  "monitor_live = monitor0\<lparr>room_status := [u ''63136'' \<mapsto> True]\<rparr>"

text \<open>The mobile page of room 63136 answers with status 200 and an empty body, without a
  redirect.\<close>
definition blank_page :: response where
  "blank_page =
     \<lparr>resp_url = mobile_url (u ''63136''), status_code = 200, text_body = [],
      json_result = Inl JSONDecodeError\<rparr>"

definition env_blank_page :: env where
  "env_blank_page =
     plain_env (\<lambda>url. if url = mobile_url (u ''63136'') then Inr blank_page
                       else Inl RequestException)"

text \<open>A monitor for room 63136 whose name cache holds a real name for it.\<close>
definition monitor_cached :: monitor where
  "monitor_cached = init [u ''63136''] 60 True None cached_names"

text \<open>The primary API answers for room 1 with the success marker and \<^verbatim>\<open>null\<close> as payload.\<close>
definition env_null_payload :: env where
  "env_null_payload =
     plain_env (\<lambda>url. if url = primary_url (u ''1'')
                       then Inr (json_response (JObj [(u ''error'', JInt 0), (u ''data'', JNull)]))
                       else Inl RequestException)"

text \<open>A monitor for the rooms 1 and 63136.\<close>
definition monitor_two :: monitor where
  "monitor_two = init [u ''1'', u ''63136''] 60 True None Map.empty"

text \<open>The first pass of the loop meets the \<^verbatim>\<open>null\<close> payload, the later ones the live room.\<close>
definition two_envs :: "nat \<Rightarrow> env" where
  "two_envs i = (if i = 0 then env_null_payload else env_primary_live)"








section \<open>Properties of the resolver\<close>

subsection \<open>Traces and results of composed computations\<close>

lemma u_eq_iff [simp]: "u a = u b \<longleftrightarrow> a = b"
  unfolding u_def by (rule inj_map_eq_map) (simp add: inj_def)

lemma u_append [simp]: "u a @ u b = u (a @ b)"
  by (simp add: u_def)

lemma u_Nil [simp]: "u [] = []"
  by (simp add: u_def)

lemma u_eq_Nil [simp]: "u s = [] \<longleftrightarrow> s = []"
  by (simp add: u_def)

lemma bind_Inl [simp]: "bind (es, Inl e) f = (es, Inl e)"
  by (simp add: bind_def)

lemma bind_Inr [simp]: "bind (es, Inr x) f = (es @ fst (f x), snd (f x))"
  by (simp add: bind_def split: prod.splits)

lemma try_except_Inl [simp]: "try_except (es, Inl e) h = (es @ fst (h e), snd (h e))"
  by (simp add: try_except_def split: prod.splits)

lemma try_except_Inr [simp]: "try_except (es, Inr x) h = (es, Inr x)"
  by (simp add: try_except_def)

lemma fst_bind: "fst (bind m f) = fst m @ (case snd m of Inl e \<Rightarrow> [] | Inr x \<Rightarrow> fst (f x))"
  by (cases m) (simp add: bind_def split: sum.splits prod.splits)

lemma snd_bind: "snd (bind m f) = (case snd m of Inl e \<Rightarrow> Inl e | Inr x \<Rightarrow> snd (f x))"
  by (cases m) (simp add: bind_def split: sum.splits prod.splits)

lemma fst_try_except:
  "fst (try_except m h) = fst m @ (case snd m of Inl e \<Rightarrow> fst (h e) | Inr x \<Rightarrow> [])"
  by (cases m) (simp add: try_except_def split: sum.splits prod.splits)

lemma snd_try_except:
  "snd (try_except m h) = (case snd m of Inl e \<Rightarrow> snd (h e) | Inr x \<Rightarrow> Inr x)"
  by (cases m) (simp add: try_except_def split: sum.splits prod.splits)

lemmas io_simps = fst_bind snd_bind fst_try_except snd_try_except

lemmas io_defs = ret_def emit_def lift_def http_get_def http_post_def

lemma dict_get_case:
  "dict_get v k d =
     (case v of JObj kvs \<Rightarrow> Inr (case map_of kvs k of None \<Rightarrow> d | Some x \<Rightarrow> x)
      | _ \<Rightarrow> Inl AttributeError)"
  by (cases v) simp_all

subsection \<open>The chain of sources\<close>

lemma pc_payload_trace: "fst (pc_payload room_id response) = []"
  by (simp add: pc_payload_def io_defs bind_def split: sum.splits prod.splits)

lemma try_pc_api_result:
  "snd (try_pc_api env names room_id) =
     Inr (case pc_answer env room_id of Some info \<Rightarrow> info | None \<Rightarrow> cache_fallback names room_id)"
  by (cases "pc_payload room_id (projr (requests_get env (pc_url room_id)))")
     (auto simp: try_pc_api_def pc_answer_def io_defs split: sum.splits option.splits)

lemma scrape_page_result:
  "snd (scrape_page room_id html) =
     Inr (case scrape html of (is_live, room_name, owner_name) \<Rightarrow>
            room_dict room_id (JStr room_name) (if is_live then u ''1'' else u ''2'') (JStr owner_name))"
  by (simp add: scrape_page_def io_defs split: prod.splits)

lemma get_room_info_backup_result:
  "snd (get_room_info_backup env names room_id) =
     Inr (case mobile_answer env names room_id of
            Some info \<Rightarrow> info
          | None \<Rightarrow> (case pc_answer env room_id of
                       Some info \<Rightarrow> info | None \<Rightarrow> cache_fallback names room_id))"
  by (simp add: get_room_info_backup_def mobile_answer_def io_defs Let_def
        try_pc_api_result scrape_page_result split: sum.splits prod.splits)

lemma get_room_info_result:
  "snd (get_room_info env names room_id) = Inr (resolve env names room_id)"
  by (simp add: get_room_info_def resolve_def primary_answer_def io_defs io_simps
        get_room_info_backup_result dict_get_case split: sum.splits json.splits)

lemma fallback_event_simps [simp]:
  "fallback_event room_id (Log lv msg) = resolver_log msg"
  "fallback_event room_id (HttpGet (mobile_url room_id) (Some 10))"
  "fallback_event room_id (HttpGet (pc_url room_id) (Some 10))"
  by (simp_all add: fallback_event_def)

lemma resolver_log_simps [simp]:
  "resolver_log (GetInfoFailed room_id e)"
  "resolver_log (Redirected room_id url)"
  "resolver_log (RedirectedToTopic room_id)"
  "resolver_log (RoomMayNotExist room_id)"
  "resolver_log (ParseResult room_id is_live room_name owner_name)"
  "resolver_log (PageRequestFailed code)"
  "resolver_log (PcApiFailed room_id e)"
  by (simp_all add: resolver_log_def)

lemma try_pc_api_trace: "list_all (fallback_event room_id) (fst (try_pc_api env names room_id))"
  by (simp add: try_pc_api_def io_defs io_simps pc_payload_trace split: sum.splits option.splits)

lemma scrape_page_trace: "list_all (fallback_event room_id) (fst (scrape_page room_id html))"
  by (simp add: scrape_page_def io_defs split: prod.splits)

lemma get_room_info_backup_trace:
  "list_all (fallback_event room_id) (fst (get_room_info_backup env names room_id))"
  by (simp add: get_room_info_backup_def io_defs io_simps Let_def try_pc_api_trace
        scrape_page_trace split: sum.splits)

lemma get_room_info_trace:
  "\<exists>rest. fst (get_room_info env names room_id) = HttpGet (primary_url room_id) None # rest \<and>
          list_all (fallback_event room_id) rest"
  by (simp add: get_room_info_def io_defs io_simps get_room_info_backup_trace
        get_room_info_backup_result dict_get_case split: sum.splits json.splits)

lemma unknown_nonempty [simp]: "unknown_room_of r \<noteq> []" "unknown_owner_of r \<noteq> []"
  by (simp_all add: unknown_room_of_def unknown_owner_of_def unknown_room_def unknown_owner_def)

lemma cache_fallback_has_names: "has_names (cache_fallback names room_id)"
  by (simp add: has_names_def cache_fallback_def room_dict_def Let_def)

section \<open>Properties of the monitor's methods\<close>

lemma save_room_names_result: "snd (save_room_names env) = Inr ()"
  by (simp add: save_room_names_def io_defs io_simps split: option.splits)

lemma send_server_chan_result: "snd (send_server_chan env key title message) = Inr ()"
  by (simp add: send_server_chan_def io_defs io_simps dict_get_case
        split: sum.splits json.splits)

lemma notify_result: "snd (notify env m title message) = Inr ()"
  by (simp add: notify_def desktop_notify_def io_defs io_simps send_server_chan_result
        split: option.splits sum.splits)

lemma notify_cong:
  "server_chan_key m' = server_chan_key m \<Longrightarrow> notify env m' title message = notify env m title message"
  by (simp add: notify_def)

lemma check_room_status_eq:
  "check_room_status env room_id m =
     (case get_room_info env (room_names m) room_id of
        (es, Inl e) \<Rightarrow> ((es, Inl e), m)
      | (es, Inr info) \<Rightarrow>
          (case info of
             JObj kvs \<Rightarrow>
               if py_truthy (field info (u ''room_name'') JNull)
               then ((es @ fst (save_room_names env),
                      Inr (field info (u ''room_status'') JNull = JStr (u ''1''), info)),
                     m\<lparr>room_names := (room_names m)(room_id \<mapsto> field info (u ''room_name'') JNull)\<rparr>)
               else ((es, Inr (field info (u ''room_status'') JNull = JStr (u ''1''), info)), m)
           | _ \<Rightarrow> ((es, Inl AttributeError), m)))"
proof (cases "get_room_info env (room_names m) room_id")
  case (Pair es r)
  show ?thesis
  proof (cases r)
    case (Inl e)
    with Pair show ?thesis
      by (simp add: check_room_status_def sbind_def sget_def)
  next
    case (Inr info)
    obtain ws where ws: "save_room_names env = (ws, Inr ())"
      using save_room_names_result [of env] by (cases "save_room_names env") simp
    from Pair Inr ws show ?thesis
      by (cases info)
         (simp_all add: check_room_status_def sbind_def sget_def sio_def supd_def io_defs field_def)
  qed
qed



lemma check_room_status_obj:
  assumes "check_room_status env room_id m = ((es, Inr (is_live, info)), m1)"
  shows "\<exists>kvs. info = JObj kvs"
proof (cases "get_room_info env (room_names m) room_id")
  case (Pair gs r)
  with assms show ?thesis
    by (cases r; cases "projr r")
       (auto simp: check_room_status_eq split: if_splits)
qed

lemma check_room_status_frame:
  assumes "check_room_status env room_id m = ((es, r), m1)"
  shows "\<exists>names. m1 = m\<lparr>room_names := names\<rparr>"
proof -
  have same: "m = m\<lparr>room_names := room_names m\<rparr>" by simp
  obtain gs g where g: "get_room_info env (room_names m) room_id = (gs, g)"
    by (cases "get_room_info env (room_names m) room_id")
  show ?thesis
  proof (cases "m1 = m")
    case True
    with same show ?thesis by metis
  next
    case False
    with assms g show ?thesis
      by (cases g; cases "projr g")
         (auto simp: check_room_status_eq split: if_splits)
  qed
qed

lemma run_room_eq:
  "run_room env room_id m =
     (case check_room_status env room_id m of
        ((es, Inl e), m1) \<Rightarrow> ((es @ [Log ERROR (CheckFailed room_id e)], Inr ()), m1)
      | ((es, Inr (is_live, info)), m1) \<Rightarrow>
          (let room_name = field info (u ''room_name'') (JStr (room_label room_id));
               owner_name = field info (u ''owner_name'') (JStr (owner_label room_id))
           in case room_status m1 room_id of
                None \<Rightarrow> ((es @ [Log ERROR (CheckFailed room_id KeyError)], Inr ()), m1)
              | Some previous \<Rightarrow>
                  if is_live = previous then
                    ((es @ [Log INFO (StatusLine room_name room_id is_live)], Inr ()), m1)
                  else if is_live then
                    ((es @ fst (notify env m1 (live_title env owner_name) (body_text env room_name)) @
                        [Log INFO (WentLive owner_name room_id)], Inr ()),
                     m1\<lparr>room_status := (room_status m1)(room_id \<mapsto> True),
                        new_live_rooms := new_live_rooms m1 @ [(room_id, info)]\<rparr>)
                  else
                    ((es @ fst (notify env m1 (offline_title env owner_name) (body_text env room_name)) @
                        [Log INFO (WentOffline owner_name room_id)], Inr ()),
                     m1\<lparr>room_status := (room_status m1)(room_id \<mapsto> False)\<rparr>)))"
proof (cases "check_room_status env room_id m")
  case (Pair c m1)
  obtain es r where c: "c = (es, r)" by (cases c)
  show ?thesis
  proof (cases r)
    case (Inl e)
    with Pair c show ?thesis
      by (simp add: run_room_def process_room_def stry_def sbind_def sio_def io_defs)
  next
    case (Inr p)
    obtain is_live info where p: "p = (is_live, info)" by (cases p)
    from Pair c Inr p obtain kvs where info: "info = JObj kvs"
      using check_room_status_obj by blast
    define ns where "ns = (\<lambda>t b. fst (notify env m1 t b))"
    have f: "\<And>t b. fst (notify env m1 t b) = ns t b"
      by (simp add: ns_def)
    have n: "\<And>t b key. notify env (m1\<lparr>room_status := key\<rparr>) t b = (ns t b, Inr ())"
      by (simp add: ns_def notify_cong [of "m1\<lparr>room_status := key\<rparr>" m1 for key]
            prod_eq_iff notify_result)
    show ?thesis
    proof (cases "room_status m1 room_id")
      case None
      with Pair c Inr p info show ?thesis
        by (simp add: run_room_def process_room_def stry_def sbind_def sio_def sget_def
            status_of_def io_defs field_def Let_def)
    next
      case (Some previous)
      with Pair c Inr p info show ?thesis
        by (simp add: run_room_def process_room_def stry_def sbind_def sio_def sget_def supd_def
            status_of_def io_defs field_def n f Let_def)
    qed
  qed
qed

lemma notifications_append [simp]:
  "notifications (es @ es') = notifications es @ notifications es'"
  by (induction es rule: notifications.induct) simp_all

lemma notifications_fallback:
  "list_all (fallback_event room_id) es \<Longrightarrow> notifications es = []"
  by (induction es rule: notifications.induct) (simp_all add: fallback_event_def)

lemma notifications_get_room_info [simp]:
  "notifications (fst (get_room_info env names room_id)) = []"
  using get_room_info_trace [of env names room_id] notifications_fallback [of room_id]
  by auto

lemma notifications_save [simp]: "notifications (fst (save_room_names env)) = []"
  by (simp add: save_room_names_def io_defs io_simps split: option.splits)

lemma notifications_check:
  "notifications (fst (fst (check_room_status env room_id m))) = []"
proof -
  obtain gs g where g: "get_room_info env (room_names m) room_id = (gs, g)"
    by (cases "get_room_info env (room_names m) room_id")
  then have "notifications gs = []"
    using notifications_get_room_info [of env "room_names m" room_id] by simp
  with g show ?thesis
    by (cases g; cases "projr g") (simp_all add: check_room_status_eq)
qed

lemma notifications_send [simp]:
  "notifications (fst (send_server_chan env key title message)) = []"
  by (simp add: send_server_chan_def io_defs io_simps dict_get_case
        split: sum.splits json.splits)

lemma notifications_notify [simp]:
  "notifications (fst (notify env m title message)) = [(title, message)]"
  by (simp add: notify_def desktop_notify_def io_defs io_simps split: option.splits sum.splits)

lemma run_room_newly_live:
  assumes "room_status m room_id = Some False"
    and "check_room_status env room_id m = ((es, Inr (True, info)), m1)"
  shows "run_room env room_id m =
      ((es @ fst (notify env m1 (live_title env (field info (u ''owner_name'') (JStr (owner_label room_id))))
                   (body_text env (field info (u ''room_name'') (JStr (room_label room_id))))) @
          [Log INFO (WentLive (field info (u ''owner_name'') (JStr (owner_label room_id))) room_id)], Inr ()),
       m1\<lparr>room_status := (room_status m1)(room_id \<mapsto> True),
          new_live_rooms := new_live_rooms m1 @ [(room_id, info)]\<rparr>)"
proof -
  obtain names where "m1 = m\<lparr>room_names := names\<rparr>"
    using check_room_status_frame [OF assms(2)] by blast
  with assms show ?thesis by (simp add: run_room_eq Let_def)
qed

lemma run_room_newly_offline:
  assumes "room_status m room_id = Some True"
    and "check_room_status env room_id m = ((es, Inr (False, info)), m1)"
  shows "run_room env room_id m =
      ((es @ fst (notify env m1 (offline_title env (field info (u ''owner_name'') (JStr (owner_label room_id))))
                   (body_text env (field info (u ''room_name'') (JStr (room_label room_id))))) @
          [Log INFO (WentOffline (field info (u ''owner_name'') (JStr (owner_label room_id))) room_id)], Inr ()),
       m1\<lparr>room_status := (room_status m1)(room_id \<mapsto> False)\<rparr>)"
proof -
  obtain names where "m1 = m\<lparr>room_names := names\<rparr>"
    using check_room_status_frame [OF assms(2)] by blast
  with assms show ?thesis by (simp add: run_room_eq Let_def)
qed

lemma run_room_unchanged:
  assumes "room_status m room_id = Some is_live"
    and "check_room_status env room_id m = ((es, Inr (is_live, info)), m1)"
  shows "run_room env room_id m =
      ((es @ [Log INFO (StatusLine (field info (u ''room_name'') (JStr (room_label room_id))) room_id is_live)],
        Inr ()), m1)"
proof -
  obtain names where "m1 = m\<lparr>room_names := names\<rparr>"
    using check_room_status_frame [OF assms(2)] by blast
  with assms show ?thesis by (simp add: run_room_eq Let_def)
qed

lemma get_room_info_primary_live:
  "get_room_info env_primary_live names (u ''63136'') =
     ([HttpGet (primary_url (u ''63136'')) None], Inr live_payload)"
  by (simp add: get_room_info_def io_defs env_primary_live_def plain_env_def json_response_def)

lemma check_primary_live:
  "check_room_status env_primary_live (u ''63136'') m =
     (([HttpGet (primary_url (u ''63136'')) None, WriteNames], Inr (True, live_payload)),
      m\<lparr>room_names := (room_names m)(u ''63136'' \<mapsto> JStr (u ''Y''))\<rparr>)"
proof -
  have s: "save_room_names env_primary_live = ([WriteNames], Inr ())"
    by (simp add: save_room_names_def env_primary_live_def plain_env_def)
  show ?thesis
    by (simp add: check_room_status_eq get_room_info_primary_live live_payload_def field_def s)
qed

lemma check_all_fail:
  assumes "primary_answer env room_id = None"
    and "mobile_answer env (room_names m) room_id = None"
    and "pc_answer env room_id = None"
  shows "\<exists>es names. check_room_status env room_id m =
           ((es, Inr (False, cache_fallback (room_names m) room_id)), m\<lparr>room_names := names\<rparr>)"
proof -
  obtain gs where g: "get_room_info env (room_names m) room_id =
      (gs, Inr (cache_fallback (room_names m) room_id))"
    using get_room_info_result [of env "room_names m" room_id] assms
    by (cases "get_room_info env (room_names m) room_id") (simp add: resolve_def)
  show ?thesis
    by (simp add: check_room_status_eq g)
       (auto simp: cache_fallback_def room_dict_def field_def Let_def)
qed

lemma scrape_blank: "scrape [] = (False, unknown_room, unknown_owner)"
  by (simp add: scrape_def is_live_patterns_def re_found_def re_group1_def nickname_pattern_def
        room_name_pattern_def alt_room_name_pattern_def title_pattern_def field_pattern_def
        field_head_def seqs_def quote_def room_not_found_def page_not_found_def)

lemma resolve_blank_page:
  "resolve env_blank_page names (u ''63136'') =
     room_dict (u ''63136'') (JStr unknown_room) (u ''2'') (JStr unknown_owner)"
  by (simp add: resolve_def primary_answer_def mobile_answer_def env_blank_page_def plain_env_def
        blank_page_def scrape_blank primary_url_def mobile_url_def)

lemma checked_append [simp]: "checked (es @ es') = checked es @ checked es'"
  by (induction es rule: checked.induct) simp_all

lemma primary_url_base [simp]:
  "prefix primary_base (primary_url room_id)"
  "drop (length primary_base) (primary_url room_id) = room_id"
  by (simp_all add: primary_url_def primary_base_def)

lemma not_primary [simp]:
  "\<not> prefix primary_base (mobile_url room_id)" "\<not> prefix primary_base (pc_url room_id)"
  by (simp_all add: primary_base_def mobile_url_def pc_url_def u_def)

lemma checked_fallback:
  "list_all (fallback_event room_id) es \<Longrightarrow> checked es = []"
  by (induction es rule: checked.induct) (auto simp: fallback_event_def)

lemma checked_get_room_info [simp]:
  "checked (fst (get_room_info env names room_id)) = [room_id]"
  using get_room_info_trace [of env names room_id] checked_fallback [of room_id]
  by auto

lemma checked_save [simp]: "checked (fst (save_room_names env)) = []"
  by (simp add: save_room_names_def io_defs io_simps split: option.splits)

lemma checked_check:
  "checked (fst (fst (check_room_status env room_id m))) = [room_id]"
proof -
  obtain gs g where g: "get_room_info env (room_names m) room_id = (gs, g)"
    by (cases "get_room_info env (room_names m) room_id")
  then have "checked gs = [room_id]"
    using checked_get_room_info [of env "room_names m" room_id] by simp
  with g show ?thesis
    by (cases g; cases "projr g") (simp_all add: check_room_status_eq)
qed

lemma checked_send [simp]:
  "checked (fst (send_server_chan env key title message)) = []"
  by (simp add: send_server_chan_def io_defs io_simps dict_get_case
        split: sum.splits json.splits)

lemma checked_notify [simp]:
  "checked (fst (notify env m title message)) = []"
  by (simp add: notify_def desktop_notify_def io_defs io_simps split: option.splits sum.splits)

lemma run_room_result: "snd (fst (run_room env room_id m)) = Inr ()"
proof (cases "check_room_status env room_id m")
  case (Pair c m1)
  obtain es r where c: "c = (es, r)" by (cases c)
  show ?thesis
  proof (cases r)
    case (Inl e)
    with Pair c show ?thesis by (simp add: run_room_eq)
  next
    case (Inr p)
    with Pair c show ?thesis
      by (cases p; cases "room_status m1 room_id") (simp_all add: run_room_eq Let_def)
  qed
qed

lemma run_room_checked: "checked (fst (fst (run_room env room_id m))) = [room_id]"
proof (cases "check_room_status env room_id m")
  case (Pair c m1)
  obtain es r where c: "c = (es, r)" by (cases c)
  have es: "checked es = [room_id]"
    using checked_check [of env room_id m] Pair c by simp
  show ?thesis
  proof (cases r)
    case (Inl e)
    with Pair c es show ?thesis by (simp add: run_room_eq)
  next
    case (Inr p)
    with Pair c es show ?thesis
      by (cases p; cases "room_status m1 room_id") (simp_all add: run_room_eq Let_def)
  qed
qed

lemma run_room_frame:
  "room_ids (snd (run_room env room_id m)) = room_ids m \<and>
   check_interval (snd (run_room env room_id m)) = check_interval m"
proof (cases "check_room_status env room_id m")
  case (Pair c m1)
  obtain es r where c: "c = (es, r)" by (cases c)
  obtain names where m1: "m1 = m\<lparr>room_names := names\<rparr>"
    using check_room_status_frame [of env room_id m es r m1] Pair c by auto
  show ?thesis
  proof (cases r)
    case (Inl e)
    with Pair c m1 show ?thesis by (simp add: run_room_eq)
  next
    case (Inr p)
    with Pair c m1 show ?thesis
      by (cases p; cases "room_status m1 room_id") (simp_all add: run_room_eq Let_def)
  qed
qed

lemma run_room_catches:
  assumes "process_room env room_id m = ((es, Inl e), m1)"
  shows "run_room env room_id m = ((es @ [Log ERROR (CheckFailed room_id e)], Inr ()), m1)"
  using assms by (simp add: run_room_def stry_def sio_def io_defs)

lemma for_rooms_total:
  "snd (fst (for_rooms envs i rooms m)) = Inr () \<and>
   checked (fst (fst (for_rooms envs i rooms m))) = rooms \<and>
   room_ids (snd (for_rooms envs i rooms m)) = room_ids m \<and>
   check_interval (snd (for_rooms envs i rooms m)) = check_interval m"
proof (induction rooms arbitrary: i m)
  case Nil
  show ?case by (simp add: ret_def)
next
  case (Cons room_id rest)
  obtain es m1 where r: "run_room (envs i) room_id m = ((es, Inr ()), m1)"
    using run_room_result [of "envs i" room_id m]
    by (cases "run_room (envs i) room_id m") (auto simp: prod_eq_iff)
  have es: "checked es = [room_id]"
    using run_room_checked [of "envs i" room_id m] r by simp
  have fr: "room_ids m1 = room_ids m" "check_interval m1 = check_interval m"
    using run_room_frame [of "envs i" room_id m] r by simp_all
  obtain es' m2 where f: "for_rooms envs (Suc i) rest m1 = ((es', Inr ()), m2)"
    using Cons.IH [of "Suc i" m1]
    by (cases "for_rooms envs (Suc i) rest m1") (auto simp: prod_eq_iff)
  have "checked es' = rest" "room_ids m2 = room_ids m1" "check_interval m2 = check_interval m1"
    using Cons.IH [of "Suc i" m1] f by simp_all
  with r f es fr show ?case
    by (simp add: sbind_def)
qed

lemma open_live_room_result: "snd (open_live_room con room_id) = Inr ()"
  by (simp add: open_live_room_def Let_def io_defs io_simps split: option.splits)

lemma checked_open [simp]: "checked (fst (open_live_room con room_id)) = []"
  by (simp add: open_live_room_def Let_def io_defs io_simps split: option.splits)

lemma take_choice_result: "snd (take_choice con pending) = Inr ()"
  by (simp add: take_choice_def io_defs io_simps open_live_room_result split: sum.splits)

lemma checked_take_choice [simp]: "checked (fst (take_choice con pending)) = []"
  by (simp add: take_choice_def io_defs io_simps split: sum.splits)

lemma checked_print_menu [simp]: "checked (fst (print_menu i pending)) = []"
  by (induction i pending rule: print_menu.induct)
     (simp_all add: io_defs io_simps split: sum.splits)


lemma handle_new_live_rooms_cases:
  "handle_new_live_rooms con m =
     (case new_live_rooms m of
        [] \<Rightarrow> (ret (), m)
      | p # ps \<Rightarrow>
          if ps = [] then
            ((fst (if auto_open m then open_live_room con (fst p) else ret ()), Inr ()),
             m\<lparr>new_live_rooms := []\<rparr>)
          else
            (case snd (print_menu 1 (p # ps)) of
               Inl e \<Rightarrow> ((Print MenuHeader # fst (print_menu 1 (p # ps)), Inl e), m)
             | Inr x \<Rightarrow>
                 ((Print MenuHeader # fst (print_menu 1 (p # ps)) @ Print MenuNone #
                     fst (take_choice con (p # ps)), Inr ()),
                  m\<lparr>new_live_rooms := []\<rparr>)))"
proof (cases "new_live_rooms m")
  case Nil
  then show ?thesis by (simp add: handle_new_live_rooms_def)
next
  case (Cons p ps)
  obtain room_id info where p: "p = (room_id, info)" by (cases p)
  show ?thesis
  proof (cases ps)
    case Nil
    obtain os where "open_live_room con room_id = (os, Inr ())"
      using open_live_room_result [of con room_id]
      by (cases "open_live_room con room_id") simp
    with Cons p Nil show ?thesis
      by (simp add: handle_new_live_rooms_def sbind_def sio_def supd_def ret_def)
  next
    case (Cons q qs)
    obtain ms mr where pm: "print_menu 1 (p # q # qs) = (ms, mr)"
      by (cases "print_menu 1 (p # q # qs)")
    obtain cs where tc: "take_choice con (p # q # qs) = (cs, Inr ())"
      using take_choice_result [of con "p # q # qs"]
      by (cases "take_choice con (p # q # qs)") simp
    from \<open>new_live_rooms m = p # ps\<close> p Cons pm tc show ?thesis
      by (cases mr)
         (simp_all add: handle_new_live_rooms_def sbind_def sio_def supd_def emit_def)
  qed
qed

lemma handle_new_live_rooms_frame:
  "checked (fst (fst (handle_new_live_rooms con m))) = [] \<and>
   room_ids (snd (handle_new_live_rooms con m)) = room_ids m \<and>
   check_interval (snd (handle_new_live_rooms con m)) = check_interval m"
  by (simp add: handle_new_live_rooms_cases ret_def split: list.splits sum.splits)

lemma start_handler_total:
  "snd (fst (start_handler progress m)) = Inr () \<and>
   checked (fst (fst (start_handler progress m))) = [] \<and>
   room_ids (snd (start_handler progress m)) = room_ids m \<and>
   check_interval (snd (start_handler progress m)) = check_interval m"
proof (cases progress)
  case None
  then show ?thesis by (simp add: start_handler_def)
next
  case (Some con)
  then show ?thesis
    using handle_new_live_rooms_frame [of con m]
    by (cases "handle_new_live_rooms con m") (auto simp: start_handler_def)
qed

lemma poll_cycle_total:
  "snd (fst (poll_cycle w m)) = Inr () \<and>
   checked (fst (fst (poll_cycle w m))) = room_ids m \<and>
   room_ids (snd (poll_cycle w m)) = room_ids m \<and>
   check_interval (snd (poll_cycle w m)) = check_interval m"
proof -
  obtain es m1 where f: "for_rooms (room_env w) 0 (room_ids m) m = ((es, Inr ()), m1)"
    using for_rooms_total [of "room_env w" 0 "room_ids m" m]
    by (cases "for_rooms (room_env w) 0 (room_ids m) m") (auto simp: prod_eq_iff)
  have f': "checked es = room_ids m" "room_ids m1 = room_ids m" "check_interval m1 = check_interval m"
    using for_rooms_total [of "room_env w" 0 "room_ids m" m] f by simp_all
  obtain hs m2 where h: "start_handler (handler_console w) m1 = ((hs, Inr ()), m2)"
    using start_handler_total [of "handler_console w" m1]
    by (cases "start_handler (handler_console w) m1") (auto simp: prod_eq_iff)
  have h': "checked hs = []" "room_ids m2 = room_ids m1" "check_interval m2 = check_interval m1"
    using start_handler_total [of "handler_console w" m1] h by simp_all
  show ?thesis
    using f f' h h' by (simp add: poll_cycle_def sbind_def sget_def io_defs)
qed

lemma run_loop_total:
  "snd (fst (run_loop ws m)) = Inr () \<and>
   checked (fst (fst (run_loop ws m))) = concat (replicate (length ws) (room_ids m)) \<and>
   room_ids (snd (run_loop ws m)) = room_ids m"
proof (induction ws arbitrary: m)
  case Nil
  show ?case by (simp add: ret_def)
next
  case (Cons w ws)
  obtain es m1 where p: "poll_cycle w m = ((es, Inr ()), m1)"
    using poll_cycle_total [of w m]
    by (cases "poll_cycle w m") (auto simp: prod_eq_iff)
  have p': "checked es = room_ids m" "room_ids m1 = room_ids m"
    using poll_cycle_total [of w m] p by simp_all
  obtain es' m2 where r: "run_loop ws m1 = ((es', Inr ()), m2)"
    using Cons.IH [of m1]
    by (cases "run_loop ws m1") (auto simp: prod_eq_iff)
  have "checked es' = concat (replicate (length ws) (room_ids m1))" "room_ids m2 = room_ids m1"
    using Cons.IH [of m1] r by simp_all
  with p p' r show ?case
    by (simp add: sbind_def)
qed

lemma process_room_null_payload:
  "process_room env_null_payload (u ''1'') m =
     (([HttpGet (primary_url (u ''1'')) None], Inl AttributeError), m)"
proof -
  have g: "get_room_info env_null_payload (room_names m) (u ''1'') =
      ([HttpGet (primary_url (u ''1'')) None], Inr JNull)"
    by (simp add: get_room_info_def io_defs env_null_payload_def plain_env_def json_response_def)
  show ?thesis
    by (simp add: process_room_def sbind_def check_room_status_eq g)
qed

lemma went_live_append [simp]: "went_live (es @ es') = went_live es @ went_live es'"
  by (induction es rule: went_live.induct) simp_all



lemma went_live_save [simp]: "went_live (fst (save_room_names env)) = []"
  by (simp add: save_room_names_def io_defs io_simps split: option.splits)


lemma went_live_send [simp]:
  "went_live (fst (send_server_chan env key title message)) = []"
  by (simp add: send_server_chan_def io_defs io_simps dict_get_case
        split: sum.splits json.splits)

lemma went_live_notify [simp]:
  "went_live (fst (notify env m title message)) = []"
  by (simp add: notify_def desktop_notify_def io_defs io_simps split: option.splits sum.splits)

lemma all_dicts_append [simp]:
  "all_dicts (ps @ qs) \<longleftrightarrow> all_dicts ps \<and> all_dicts qs"
  by (simp add: all_dicts_def)






lemma has_name_fields_room_dict [simp]:
  "has_name_fields (room_dict room_id name status owner)"
  by (simp add: has_name_fields_def room_dict_def)

lemma pc_payload_fields:
  "snd (pc_payload room_id response) = Inr (Some info) \<Longrightarrow> has_name_fields info"
  by (auto simp: pc_payload_def io_defs io_simps dict_get_case
        split: sum.splits json.splits if_splits)

lemma fallback_has_name_fields:
  assumes "primary_answer env room_id = None"
  shows "has_name_fields (resolve env names room_id)"
proof (cases "mobile_answer env names room_id")
  case (Some info)
  then have "has_name_fields info"
    by (auto simp: mobile_answer_def split: sum.splits if_splits prod.splits)
  with assms Some show ?thesis by (simp add: resolve_def)
next
  case None
  show ?thesis
  proof (cases "pc_answer env room_id")
    case (Some info)
    then have "has_name_fields info"
      by (auto simp: pc_answer_def pc_payload_fields split: sum.splits if_splits option.splits)
    with assms None Some show ?thesis by (simp add: resolve_def)
  next
    case pc: None
    with assms None show ?thesis
      by (simp add: resolve_def cache_fallback_def Let_def)
  qed
qed











section \<open>The claims\<close>

text \<open>
  Claim C4. Whenever the primary API answers with a JSON object whose \<open>error\<close> field equals
  0, \<open>get_room_info\<close> returns the payload under \<open>data\<close> of that response as it is (so the
  name, the owner and the live status are the ones carried there), and the only call it
  makes is the GET of the primary API: no mobile page, no PC API, and the result does not
  depend on the name cache.
\<close>
theorem primary_success_returns_payload:
  assumes "requests_get env (primary_url room_id) = Inr response"
    and "json_result response = Inr (JObj kvs)"
    and "map_of kvs (u ''error'') = Some err"
    and "py_eq_int err 0"
  shows "get_room_info env names room_id =
           ([HttpGet (primary_url room_id) None],
            Inr (case map_of kvs (u ''data'') of None \<Rightarrow> JObj [] | Some payload \<Rightarrow> payload))"
  using assms by (simp add: get_room_info_def io_defs)

theorem primary_success_returns_payload_witness:
  "requests_get env_primary_live (primary_url (u ''63136'')) =
     Inr (json_response (JObj [(u ''error'', JInt 0), (u ''data'', live_payload)])) \<and>
   json_result (json_response (JObj [(u ''error'', JInt 0), (u ''data'', live_payload)])) =
     Inr (JObj [(u ''error'', JInt 0), (u ''data'', live_payload)]) \<and>
   map_of [(u ''error'', JInt 0), (u ''data'', live_payload)] (u ''error'') = Some (JInt 0) \<and>
   py_eq_int (JInt 0) 0 \<and>
   get_room_info env_primary_live Map.empty (u ''63136'') =
     ([HttpGet (primary_url (u ''63136'')) None], Inr live_payload)"
proof -
  have h1: "requests_get env_primary_live (primary_url (u ''63136'')) =
     Inr (json_response (JObj [(u ''error'', JInt 0), (u ''data'', live_payload)]))"
    by (simp add: env_primary_live_def plain_env_def)
  have h2: "json_result (json_response (JObj [(u ''error'', JInt 0), (u ''data'', live_payload)])) =
     Inr (JObj [(u ''error'', JInt 0), (u ''data'', live_payload)])"
    by (simp add: json_response_def)
  have h3: "map_of [(u ''error'', JInt 0), (u ''data'', live_payload)] (u ''error'') = Some (JInt 0)"
    by simp
  have h4: "py_eq_int (JInt 0) 0" by simp
  show ?thesis
    using h1 h2 h3 h4 primary_success_returns_payload [OF h1 h2 h3 h4, of Map.empty]
    by simp
qed

text \<open>
  Claim C7, as the code has it. The first call of every resolution is the GET of the
  primary API, and it is issued without a timeout; every later GET of the resolution (mobile
  page, PC API) carries a timeout of ten seconds.
\<close>
theorem primary_get_has_no_timeout:
  "\<exists>rest. fst (get_room_info env names room_id) = HttpGet (primary_url room_id) None # rest \<and>
          list_all (fallback_event room_id) rest"
  by (rule get_room_info_trace)

text \<open>
  Claim C5. When the primary API does not answer and the mobile-page request ends on a final
  URL that differs from the requested one and contains \<open>topic\<close>, the resolver returns a
  room info with \<open>room_status\<close> \<open>'2'\<close> (offline) and, when the cache holds a name for the
  room, that name as both \<open>room_name\<close> and \<open>owner_name\<close>.
\<close>
theorem topic_redirect_reports_offline:
  assumes "primary_answer env room_id = None"
    and "requests_get env (mobile_url room_id) = Inr response"
    and "resp_url response \<noteq> mobile_url room_id"
    and "contains (u ''topic'') (resp_url response)"
  shows "\<exists>info. snd (get_room_info env names room_id) = Inr info \<and>
           dict_get info (u ''room_status'') JNull = Inr (JStr (u ''2'')) \<and>
           (\<forall>cached. names room_id = Some cached \<longrightarrow>
              dict_get info (u ''room_name'') JNull = Inr cached \<and>
              dict_get info (u ''owner_name'') JNull = Inr cached)"
  using assms
  by (simp add: get_room_info_result resolve_def mobile_answer_def room_dict_def names_get_def)

theorem topic_redirect_reports_offline_witness:
  "primary_answer env_topic (u ''63136'') = None \<and>
   requests_get env_topic (mobile_url (u ''63136'')) = Inr topic_response \<and>
   resp_url topic_response \<noteq> mobile_url (u ''63136'') \<and>
   contains (u ''topic'') (resp_url topic_response) \<and>
   (\<exists>info. snd (get_room_info env_topic cached_names (u ''63136'')) = Inr info \<and>
      dict_get info (u ''room_status'') JNull = Inr (JStr (u ''2'')) \<and>
      dict_get info (u ''room_name'') JNull = Inr (JStr (u ''Real name'')) \<and>
      dict_get info (u ''owner_name'') JNull = Inr (JStr (u ''Real name'')))"
proof -
  have h1: "primary_answer env_topic (u ''63136'') = None"
    by (simp add: primary_answer_def env_topic_def plain_env_def primary_url_def mobile_url_def)
  have h2: "requests_get env_topic (mobile_url (u ''63136'')) = Inr topic_response"
    by (simp add: env_topic_def plain_env_def)
  have h3: "resp_url topic_response \<noteq> mobile_url (u ''63136'')"
    by (simp add: topic_response_def mobile_url_def)
  have h4: "contains (u ''topic'') (resp_url topic_response)"
    by (simp add: topic_response_def u_def)
  have c: "cached_names (u ''63136'') = Some (JStr (u ''Real name''))"
    by (simp add: cached_names_def)
  show ?thesis
    using h1 h2 h3 h4 c topic_redirect_reports_offline [OF h1 h2 h3 h4, of cached_names]
    by auto
qed

text \<open>
  Claim C2, as amended. For every room id and every behaviour of the sources,
  \<open>get_room_info\<close> ends with a value and not with an exception. Whenever the primary API
  does not answer with the success marker, the value is a dict in which \<open>room_name\<close> and
  \<open>owner_name\<close> are present. When no source answers at all, the value is the cache
  fallback, a dict with \<open>room_status\<close> \<open>'2'\<close> whose \<open>room_name\<close> and \<open>owner_name\<close> are not
  empty: both are the cached name when the cache holds a non-empty one for the room, and
  both are the placeholders derived from the room id when the cache has no entry for the
  room or an empty one.
\<close>
theorem get_room_info_total:
  "(\<exists>info. snd (get_room_info env names room_id) = Inr info \<and>
      (primary_answer env room_id = None \<longrightarrow> has_name_fields info)) \<and>
   (primary_answer env room_id = None \<and> mobile_answer env names room_id = None \<and>
    pc_answer env room_id = None \<longrightarrow>
      snd (get_room_info env names room_id) = Inr (cache_fallback names room_id) \<and>
      has_names (cache_fallback names room_id) \<and>
      dict_get (cache_fallback names room_id) (u ''room_status'') JNull = Inr (JStr (u ''2'')) \<and>
      (\<forall>cached. names room_id = Some cached \<and> py_truthy cached \<longrightarrow>
         cache_fallback names room_id = room_dict room_id cached (u ''2'') cached) \<and>
      (names room_id = None \<or> (\<exists>cached. names room_id = Some cached \<and> \<not> py_truthy cached) \<longrightarrow>
         cache_fallback names room_id =
           room_dict room_id (JStr (unknown_room_of room_id)) (u ''2'')
             (JStr (unknown_owner_of room_id))))"
proof -
  have a: "\<exists>info. snd (get_room_info env names room_id) = Inr info \<and>
      (primary_answer env room_id = None \<longrightarrow> has_name_fields info)"
    by (simp add: get_room_info_result fallback_has_name_fields)
  have b: "primary_answer env room_id = None \<and> mobile_answer env names room_id = None \<and>
      pc_answer env room_id = None \<longrightarrow>
        snd (get_room_info env names room_id) = Inr (cache_fallback names room_id)"
    by (simp add: get_room_info_result resolve_def)
  have c: "dict_get (cache_fallback names room_id) (u ''room_status'') JNull = Inr (JStr (u ''2''))"
    by (simp add: cache_fallback_def room_dict_def Let_def)
  have d: "\<forall>cached. names room_id = Some cached \<and> py_truthy cached \<longrightarrow>
         cache_fallback names room_id = room_dict room_id cached (u ''2'') cached"
    by (simp add: cache_fallback_def names_get_def)
  have e: "names room_id = None \<or> (\<exists>cached. names room_id = Some cached \<and> \<not> py_truthy cached) \<longrightarrow>
         cache_fallback names room_id =
           room_dict room_id (JStr (unknown_room_of room_id)) (u ''2'')
             (JStr (unknown_owner_of room_id))"
    by (auto simp: cache_fallback_def names_get_def)
  from a b c d e cache_fallback_has_names [of names room_id] show ?thesis
    by blast
qed

theorem get_room_info_total_witness:
  "primary_answer env_down (u ''63136'') = None \<and>
   mobile_answer env_down Map.empty (u ''63136'') = None \<and>
   mobile_answer env_down cached_names (u ''63136'') = None \<and>
   pc_answer env_down (u ''63136'') = None \<and>
   Map.empty (u ''63136'') = (None :: json option) \<and>
   snd (get_room_info env_down Map.empty (u ''63136'')) =
     Inr (room_dict (u ''63136'') (JStr (unknown_room_of (u ''63136''))) (u ''2'')
            (JStr (unknown_owner_of (u ''63136'')))) \<and>
   has_name_fields (room_dict (u ''63136'') (JStr (unknown_room_of (u ''63136''))) (u ''2'')
            (JStr (unknown_owner_of (u ''63136'')))) \<and>
   has_names (room_dict (u ''63136'') (JStr (unknown_room_of (u ''63136''))) (u ''2'')
            (JStr (unknown_owner_of (u ''63136'')))) \<and>
   cached_names (u ''63136'') = Some (JStr (u ''Real name'')) \<and>
   py_truthy (JStr (u ''Real name'')) \<and>
   snd (get_room_info env_down cached_names (u ''63136'')) =
     Inr (room_dict (u ''63136'') (JStr (u ''Real name'')) (u ''2'') (JStr (u ''Real name''))) \<and>
   has_names (room_dict (u ''63136'') (JStr (u ''Real name'')) (u ''2'') (JStr (u ''Real name'')))"
proof -
  have h1: "primary_answer env_down (u ''63136'') = None"
    by (simp add: primary_answer_def env_down_def plain_env_def)
  have h2: "mobile_answer env_down names (u ''63136'') = None" for names
    by (simp add: mobile_answer_def env_down_def plain_env_def)
  have h3: "pc_answer env_down (u ''63136'') = None"
    by (simp add: pc_answer_def env_down_def plain_env_def)
  have h4: "cached_names (u ''63136'') = Some (JStr (u ''Real name''))"
    by (simp add: cached_names_def)
  have h5: "py_truthy (JStr (u ''Real name''))"
    by simp
  have e: "cache_fallback Map.empty (u ''63136'') =
      room_dict (u ''63136'') (JStr (unknown_room_of (u ''63136''))) (u ''2'')
        (JStr (unknown_owner_of (u ''63136'')))"
    using h1 h2 h3 get_room_info_total [of env_down Map.empty "u ''63136''"] by simp
  have f: "cache_fallback cached_names (u ''63136'') =
      room_dict (u ''63136'') (JStr (u ''Real name'')) (u ''2'') (JStr (u ''Real name''))"
    using h1 h2 h3 h4 h5 get_room_info_total [of env_down cached_names "u ''63136''"] by simp
  have g: "snd (get_room_info env_down cached_names (u ''63136'')) =
      Inr (cache_fallback cached_names (u ''63136''))"
    using h1 h2 h3 get_room_info_total [of env_down cached_names "u ''63136''"] by simp
  show ?thesis
    using h1 h2 h3 h4 e f g get_room_info_total [of env_down Map.empty "u ''63136''"]
    by (simp add: has_names_def has_name_fields_def room_dict_def)
qed

text \<open>
  Claim C2 as stated fails: the primary API answers with the success marker and no
  payload, and the value returned is the empty dict, without \<open>room_name\<close> and
  \<open>owner_name\<close>.
\<close>
theorem get_room_info_names_counterexample:
  "\<not> (\<exists>info. snd (get_room_info env_bare_success Map.empty (u ''63136'')) = Inr info \<and>
          has_names info)"
  by (simp add: get_room_info_result resolve_def primary_answer_def env_bare_success_def
        plain_env_def json_response_def has_names_def)

text \<open>
  Claim C6. For a room whose stored status is false, a pass of the loop in which
  \<open>check_room_status\<close> reports the room live sends exactly one desktop notification, the
  started-streaming one, appends the room with its info to the pending list and leaves the
  stored status true; a following pass that again reports the room live sends no
  notification, leaves the pending list as it is and keeps the stored status true.
\<close>
theorem newly_live_then_unchanged:
  assumes "room_status m room_id = Some False"
    and "check_room_status env room_id m = ((es, Inr (True, info)), m1)"
    and "check_room_status env' room_id (snd (run_room env room_id m)) = ((es', Inr (True, info')), m3)"
  shows "snd (fst (run_room env room_id m)) = Inr () \<and>
         notifications (fst (fst (run_room env room_id m))) =
           [(live_title env (field info (u ''owner_name'') (JStr (owner_label room_id))),
             body_text env (field info (u ''room_name'') (JStr (room_label room_id))))] \<and>
         new_live_rooms (snd (run_room env room_id m)) = new_live_rooms m @ [(room_id, info)] \<and>
         room_status (snd (run_room env room_id m)) room_id = Some True \<and>
         snd (fst (run_room env' room_id (snd (run_room env room_id m)))) = Inr () \<and>
         notifications (fst (fst (run_room env' room_id (snd (run_room env room_id m))))) = [] \<and>
         new_live_rooms (snd (run_room env' room_id (snd (run_room env room_id m)))) =
           new_live_rooms (snd (run_room env room_id m)) \<and>
         room_status (snd (run_room env' room_id (snd (run_room env room_id m)))) room_id = Some True"
proof -
  define m2 where "m2 = snd (run_room env room_id m)"
  obtain names where m1: "m1 = m\<lparr>room_names := names\<rparr>"
    using check_room_status_frame [OF assms(2)] by blast
  have es: "notifications es = []"
    using notifications_check [of env room_id m] assms(2) by simp
  note first = run_room_newly_live [OF assms(1,2)]
  have st2: "room_status m2 room_id = Some True"
    unfolding m2_def using first by simp
  have c2: "check_room_status env' room_id m2 = ((es', Inr (True, info')), m3)"
    unfolding m2_def by (rule assms(3))
  obtain names' where m3: "m3 = m2\<lparr>room_names := names'\<rparr>"
    using check_room_status_frame [OF c2] by blast
  have es': "notifications es' = []"
    using notifications_check [of env' room_id m2] c2 by simp
  note second = run_room_unchanged [OF st2 c2]
  have a: "snd (fst (run_room env room_id m)) = Inr () \<and>
         notifications (fst (fst (run_room env room_id m))) =
           [(live_title env (field info (u ''owner_name'') (JStr (owner_label room_id))),
             body_text env (field info (u ''room_name'') (JStr (room_label room_id))))] \<and>
         new_live_rooms m2 = new_live_rooms m @ [(room_id, info)]"
    unfolding m2_def using first es m1 by simp
  have b: "snd (fst (run_room env' room_id m2)) = Inr () \<and>
         notifications (fst (fst (run_room env' room_id m2))) = [] \<and>
         new_live_rooms (snd (run_room env' room_id m2)) = new_live_rooms m2 \<and>
         room_status (snd (run_room env' room_id m2)) room_id = Some True"
    using second es' m3 st2 by simp
  from a b st2 show ?thesis
    unfolding m2_def by blast
qed

theorem newly_live_then_unchanged_witness:
  "room_status monitor0 (u ''63136'') = Some False \<and>
   check_room_status env_primary_live (u ''63136'') monitor0 =
     (([HttpGet (primary_url (u ''63136'')) None, WriteNames], Inr (True, live_payload)),
      monitor0\<lparr>room_names := (room_names monitor0)(u ''63136'' \<mapsto> JStr (u ''Y''))\<rparr>) \<and>
   check_room_status env_primary_live (u ''63136'')
       (snd (run_room env_primary_live (u ''63136'') monitor0)) =
     (([HttpGet (primary_url (u ''63136'')) None, WriteNames], Inr (True, live_payload)),
      (snd (run_room env_primary_live (u ''63136'') monitor0))
        \<lparr>room_names := (room_names (snd (run_room env_primary_live (u ''63136'') monitor0)))
                          (u ''63136'' \<mapsto> JStr (u ''Y''))\<rparr>) \<and>
   notifications (fst (fst (run_room env_primary_live (u ''63136'') monitor0))) =
     [(live_title env_primary_live (JStr (u ''X'')), body_text env_primary_live (JStr (u ''Y'')))] \<and>
   new_live_rooms (snd (run_room env_primary_live (u ''63136'') monitor0)) =
     [(u ''63136'', live_payload)] \<and>
   room_status (snd (run_room env_primary_live (u ''63136'') monitor0)) (u ''63136'') = Some True \<and>
   notifications (fst (fst (run_room env_primary_live (u ''63136'')
       (snd (run_room env_primary_live (u ''63136'') monitor0))))) = [] \<and>
   room_status (snd (run_room env_primary_live (u ''63136'')
       (snd (run_room env_primary_live (u ''63136'') monitor0)))) (u ''63136'') = Some True"
proof -
  have h1: "room_status monitor0 (u ''63136'') = Some False"
    by (simp add: monitor0_def init_def)
  note h2 = check_primary_live [of monitor0]
  note h3 = check_primary_live [of "snd (run_room env_primary_live (u ''63136'') monitor0)"]
  have f: "field live_payload (u ''owner_name'') (JStr (owner_label (u ''63136''))) = JStr (u ''X'')"
    "field live_payload (u ''room_name'') (JStr (room_label (u ''63136''))) = JStr (u ''Y'')"
    by (simp_all add: field_def live_payload_def)
  have e: "new_live_rooms monitor0 = []"
    by (simp add: monitor0_def init_def)
  show ?thesis
    using h1 h2 h3 f e newly_live_then_unchanged [OF h1 h2 h3]
    by simp
qed

text \<open>
  Claim C10. When every network source fails in one poll of a room whose stored status is
  true (the primary API does not answer, the mobile page does not answer, the PC API does
  not answer), the cache fallback has \<open>room_status\<close> \<open>'2'\<close>, \<open>check_room_status\<close> reports the
  room as not live, and the pass stores false and sends exactly one desktop notification,
  the stopped-streaming one.
\<close>
theorem all_sources_fail_reports_offline:
  assumes "room_status m room_id = Some True"
    and "primary_answer env room_id = None"
    and "mobile_answer env (room_names m) room_id = None"
    and "pc_answer env room_id = None"
  shows "snd (fst (check_room_status env room_id m)) =
           Inr (False, cache_fallback (room_names m) room_id) \<and>
         dict_get (cache_fallback (room_names m) room_id) (u ''room_status'') JNull =
           Inr (JStr (u ''2'')) \<and>
         room_status (snd (run_room env room_id m)) room_id = Some False \<and>
         notifications (fst (fst (run_room env room_id m))) =
           [(offline_title env (field (cache_fallback (room_names m) room_id) (u ''owner_name'')
                                  (JStr (owner_label room_id))),
             body_text env (field (cache_fallback (room_names m) room_id) (u ''room_name'')
                              (JStr (room_label room_id))))]"
proof -
  obtain es names where c: "check_room_status env room_id m =
      ((es, Inr (False, cache_fallback (room_names m) room_id)), m\<lparr>room_names := names\<rparr>)"
    using check_all_fail [OF assms(2,3,4)] by blast
  have es: "notifications es = []"
    using notifications_check [of env room_id m] c by simp
  have st: "dict_get (cache_fallback (room_names m) room_id) (u ''room_status'') JNull =
           Inr (JStr (u ''2''))"
    by (simp add: cache_fallback_def room_dict_def Let_def)
  show ?thesis
    using run_room_newly_offline [OF assms(1) c] c es st by simp
qed

theorem all_sources_fail_reports_offline_witness:
  "room_status monitor_live (u ''63136'') = Some True \<and>
   primary_answer env_down (u ''63136'') = None \<and>
   mobile_answer env_down (room_names monitor_live) (u ''63136'') = None \<and>
   pc_answer env_down (u ''63136'') = None \<and>
   room_status (snd (run_room env_down (u ''63136'') monitor_live)) (u ''63136'') = Some False \<and>
   notifications (fst (fst (run_room env_down (u ''63136'') monitor_live))) =
     [(offline_title env_down (JStr (unknown_owner_of (u ''63136''))),
       body_text env_down (JStr (unknown_room_of (u ''63136''))))]"
proof -
  have h1: "room_status monitor_live (u ''63136'') = Some True"
    by (simp add: monitor_live_def)
  have h2: "primary_answer env_down (u ''63136'') = None"
    by (simp add: primary_answer_def env_down_def plain_env_def)
  have h3: "mobile_answer env_down (room_names monitor_live) (u ''63136'') = None"
    by (simp add: mobile_answer_def env_down_def plain_env_def)
  have h4: "pc_answer env_down (u ''63136'') = None"
    by (simp add: pc_answer_def env_down_def plain_env_def)
  have f: "cache_fallback (room_names monitor_live) (u ''63136'') =
      room_dict (u ''63136'') (JStr (unknown_room_of (u ''63136''))) (u ''2'')
        (JStr (unknown_owner_of (u ''63136'')))"
    by (simp add: cache_fallback_def names_get_def monitor_live_def monitor0_def init_def)
  show ?thesis
    using h1 h2 h3 h4 all_sources_fail_reports_offline [OF h1 h2 h3 h4]
    by (simp add: f field_def room_dict_def)
qed

text \<open>
  Claim C1, as the code has it. With a relay key configured and a desktop sink that raises,
  \<open>notify\<close> makes the call to the sink, logs the failure and ends: the trace has no POST to
  the relay.
\<close>
theorem sink_failure_skips_push:
  "notify (env\<lparr>notification_notify := \<lambda>title message. Some e\<rparr>)
          (m\<lparr>server_chan_key := Some (k # key)\<rparr>) title message =
     ([DesktopNotify title message, Log ERROR (NotifyFailed e)], Inr ())"
  by (simp add: notify_def desktop_notify_def io_defs)

text \<open>
  Claim C3, as the code has it. The cache holds a real name for room 63136; the primary API
  fails and the mobile page answers with status 200 and an empty body. After
  \<open>check_room_status\<close> the cache holds the literal unknown-room string for the room.
\<close>
theorem placeholder_overwrites_cached_name:
  "room_names monitor_cached (u ''63136'') = Some (JStr (u ''Real name'')) \<and>
   room_names (snd (check_room_status env_blank_page (u ''63136'') monitor_cached)) (u ''63136'') =
     Some (JStr unknown_room)"
proof -
  obtain gs where g: "get_room_info env_blank_page (room_names monitor_cached) (u ''63136'') =
      (gs, Inr (room_dict (u ''63136'') (JStr unknown_room) (u ''2'') (JStr unknown_owner)))"
    using get_room_info_result [of env_blank_page "room_names monitor_cached" "u ''63136''"]
    by (cases "get_room_info env_blank_page (room_names monitor_cached) (u ''63136'')")
       (simp add: resolve_blank_page)
  have "room_names monitor_cached (u ''63136'') = Some (JStr (u ''Real name''))"
    by (simp add: monitor_cached_def init_def cached_names_def)
  moreover have "room_names (snd (check_room_status env_blank_page (u ''63136'') monitor_cached))
      (u ''63136'') = Some (JStr unknown_room)"
    by (simp add: check_room_status_eq g room_dict_def field_def unknown_room_def)
  ultimately show ?thesis by simp
qed

text \<open>
  Claim C8. An exception raised in the body of one room's pass is caught in that pass and
  logged with the room id, and the pass ends normally. So the \<^verbatim>\<open>for\<close> loop never ends
  with an exception and starts the check of every room of its list, in order; and for any
  number of turns the \<^verbatim>\<open>while\<close> loop goes on, each turn starting the check of every
  configured room.
\<close>
theorem room_failure_is_isolated:
  "(\<forall>es e m1. process_room env room_id m = ((es, Inl e), m1) \<longrightarrow>
      run_room env room_id m = ((es @ [Log ERROR (CheckFailed room_id e)], Inr ()), m1)) \<and>
   snd (fst (for_rooms envs i rooms m)) = Inr () \<and>
   checked (fst (fst (for_rooms envs i rooms m))) = rooms \<and>
   snd (fst (run_loop ws m)) = Inr () \<and>
   checked (fst (fst (run_loop ws m))) = concat (replicate (length ws) (room_ids m))"
  using run_room_catches [of env room_id m] for_rooms_total [of envs i rooms m]
    run_loop_total [of ws m]
  by blast

theorem room_failure_is_isolated_witness:
  "process_room env_null_payload (u ''1'') monitor_two =
     (([HttpGet (primary_url (u ''1'')) None], Inl AttributeError), monitor_two) \<and>
   run_room env_null_payload (u ''1'') monitor_two =
     (([HttpGet (primary_url (u ''1'')) None, Log ERROR (CheckFailed (u ''1'') AttributeError)],
       Inr ()), monitor_two) \<and>
   snd (fst (for_rooms two_envs 0 [u ''1'', u ''63136''] monitor_two)) = Inr () \<and>
   checked (fst (fst (for_rooms two_envs 0 [u ''1'', u ''63136''] monitor_two))) =
     [u ''1'', u ''63136''] \<and>
   room_status (snd (for_rooms two_envs 0 [u ''1'', u ''63136''] monitor_two)) (u ''63136'') =
     Some True"
proof -
  note h = process_room_null_payload [of monitor_two]
  have r1: "run_room env_null_payload (u ''1'') monitor_two =
     (([HttpGet (primary_url (u ''1'')) None, Log ERROR (CheckFailed (u ''1'') AttributeError)],
       Inr ()), monitor_two)"
    using h room_failure_is_isolated [of env_null_payload "u ''1''" monitor_two] by simp
  have st: "room_status monitor_two (u ''63136'') = Some False"
    by (simp add: monitor_two_def init_def)
  note r2 = run_room_newly_live [OF st check_primary_live [of monitor_two]]
  have fin: "room_status (snd (for_rooms two_envs 0 [u ''1'', u ''63136''] monitor_two)) (u ''63136'') =
     Some True"
    by (simp add: sbind_def two_envs_def r1 r2 ret_def)
  show ?thesis
    using h r1 fin
      room_failure_is_isolated [of env_null_payload "u ''1''" monitor_two two_envs 0
        "[u ''1'', u ''63136'']" "[]"]
    by simp
qed




end
